theory Spec2Isabelle
  imports Complex_Main
begin

section \<open>Configuration\<close>

text \<open>
  The configuration object is read by the middleware through \<open>config.security\<close>,
  \<open>config.features\<close>, \<open>config.jwt\<close> and \<open>config.rateLimit\<close>. Only the fields the
  authentication middleware and the authentication routes read are kept; the fields
  \<open>windowMs\<close> and \<open>maxRequests\<close> of \<open>config.rateLimit\<close> are \<open>cfg_windowMs\<close> and
  \<open>cfg_maxRequests\<close> here, the plain names being the parameters of \<open>rateLimit\<close>. Times are
  integers in milliseconds, as \<open>Date.now()\<close> returns them; the expiry strings
  \<open>'15m'\<close> and \<open>'7d'\<close> are kept as their number of seconds.
\<close>

record security_config =
  maxLoginAttempts :: int
  lockoutDuration :: int

record features_config =
  enableRateLimiting :: bool

record jwt_config =
  secret :: string
  refreshSecret :: string
  accessTokenExpiry :: int
  refreshTokenExpiry :: int
  issuer :: string
  audience :: string

record rateLimit_config =
  cfg_windowMs :: int
  cfg_maxRequests :: int
  authWindowMs :: int
  authMaxRequests :: int

record config =
  jwt :: jwt_config
  rateLimit_cfg :: rateLimit_config
  security :: security_config
  features :: features_config

definition default_config :: config where
  "default_config =
     \<lparr> jwt = \<lparr> secret = ''edupay-super-secret-key-2024-change-in-production'',
               refreshSecret = ''edupay-refresh-secret-key-2024-change-in-production'',
               accessTokenExpiry = 15 * 60,
               refreshTokenExpiry = 7 * 24 * 60 * 60,
               issuer = ''EduPay Platform'',
               audience = ''EduPay Users'' \<rparr>,
       rateLimit_cfg = \<lparr> cfg_windowMs = 15 * 60 * 1000, cfg_maxRequests = 100,
                         authWindowMs = 60 * 60 * 1000, authMaxRequests = 5 \<rparr>,
       security = \<lparr> maxLoginAttempts = 5, lockoutDuration = 15 * 60 * 1000 \<rparr>,
       features = \<lparr> enableRateLimiting = True \<rparr> \<rparr>"

section \<open>Arithmetic of the source\<close>

text \<open>
  \<open>Math.ceil(x / d)\<close> on integers \<open>x\<close> and a positive integer constant \<open>d\<close>: the
  least integer not below the quotient. (The quotient of two integers of the size of a
  millisecond clock is far from the range where a double would round it to a whole
  number.)
\<close>

definition ceil_div :: "int \<Rightarrow> int \<Rightarrow> int" where
  "ceil_div x d = - ((- x) div d)"

section \<open>Login attempt tracker\<close>

text \<open>
  \<open>loginAttempts\<close> is a module-level \<open>Map\<close> from the submitted email to an object
  \<open>{ attempts, lockUntil }\<close>, where \<open>lockUntil\<close> is \<open>null\<close> or a time. The objects are
  mutated in place; the model writes the changed record back under its key.
\<close>

record attempt_record =
  attempts :: int
  lockUntil :: "int option"

type_synonym login_attempts = "string \<rightharpoonup> attempt_record"

text \<open>
  The two template messages, kept by the number of minutes they print.
\<close>

datatype lock_message = Try_again_in int | Locked_for int

text \<open>
  The object returned by both guard functions: \<open>{ locked: false }\<close> with an optional
  \<open>attemptsRemaining\<close>, or \<open>{ locked: true, remainingSeconds, message }\<close>.
\<close>

datatype attempt_result =
    Unlocked "int option"
  | Locked int lock_message

text \<open>
  The test \<open>record.lockUntil && now < record.lockUntil\<close>: \<open>null\<close> and the number
  \<open>0\<close> are both falsy.
\<close>

definition lock_active :: "int option \<Rightarrow> int \<Rightarrow> bool" where
  "lock_active lu now = (case lu of None \<Rightarrow> False | Some t \<Rightarrow> t \<noteq> 0 \<and> now < t)"

definition locked_result :: "int \<Rightarrow> attempt_result" where
  "locked_result ms =
     (let remainingSeconds = ceil_div ms 1000
      in Locked remainingSeconds (Try_again_in (ceil_div remainingSeconds 60)))"

text \<open>
  \<open>trackLoginAttempt(email, success)\<close>; \<open>now\<close> is the value of its one call of
  \<open>Date.now()\<close>. The result is the new map and the returned object.
\<close>

definition trackLoginAttempt ::
  "config \<Rightarrow> int \<Rightarrow> login_attempts \<Rightarrow> string \<Rightarrow> bool \<Rightarrow> login_attempts \<times> attempt_result" where
  "trackLoginAttempt cfg now la email success =
     (let record = (case la email of None \<Rightarrow> \<lparr> attempts = 0, lockUntil = None \<rparr> | Some r \<Rightarrow> r);
          la1 = la(email \<mapsto> record)
      in if success then (la1(email := None), Unlocked None)
         else if lock_active (lockUntil record) now
         then (la1, locked_result ((case lockUntil record of Some t \<Rightarrow> t | None \<Rightarrow> 0) - now))
         else
           (let record1 = record \<lparr> attempts := attempts record + 1 \<rparr>
            in if attempts record1 \<ge> maxLoginAttempts (security cfg)
               then (la1(email \<mapsto> record1 \<lparr> lockUntil := Some (now + lockoutDuration (security cfg)),
                                              attempts := 0 \<rparr>),
                     Locked (ceil_div (lockoutDuration (security cfg)) 1000)
                            (Locked_for (ceil_div (lockoutDuration (security cfg)) 60000)))
               else (la1(email \<mapsto> record1),
                     Unlocked (Some (maxLoginAttempts (security cfg) - attempts record1)))))"

text \<open>
  \<open>isAccountLocked(email)\<close> reads the clock twice: \<open>now\<close> in the comparison with
  \<open>lockUntil\<close> and \<open>now2\<close> in the computation of \<open>remainingSeconds\<close>.
\<close>

definition isAccountLocked ::
  "int \<Rightarrow> int \<Rightarrow> login_attempts \<Rightarrow> string \<Rightarrow> login_attempts \<times> attempt_result" where
  "isAccountLocked now now2 la email =
     (case la email of
        None \<Rightarrow> (la, Unlocked None)
      | Some record \<Rightarrow>
          (case lockUntil record of
             None \<Rightarrow> (la, Unlocked None)
           | Some t \<Rightarrow>
               if t = 0 then (la, Unlocked None)
               else if now < t then (la, locked_result (t - now2))
               else (la(email := None), Unlocked None)))"

text \<open>
  The periodic cleanup of the attempts map (the second loop of the \<open>setInterval\<close>
  callback): every record whose lock has passed is deleted.
\<close>

definition cleanup_loginAttempts :: "int \<Rightarrow> login_attempts \<Rightarrow> login_attempts" where
  "cleanup_loginAttempts now la =
     (\<lambda>key. case la key of
               None \<Rightarrow> None
             | Some record \<Rightarrow>
                 (case lockUntil record of
                    None \<Rightarrow> Some record
                  | Some t \<Rightarrow> if t \<noteq> 0 \<and> now > t then None else Some record))"

text \<open>
  A run of consecutive failed attempts of one identity, one clock value for each call;
  the results are collected in order.
\<close>

fun failed_attempts ::
  "config \<Rightarrow> login_attempts \<Rightarrow> string \<Rightarrow> int list \<Rightarrow> login_attempts \<times> attempt_result list" where
  "failed_attempts cfg la email [] = (la, [])"
| "failed_attempts cfg la email (now # nows) =
     (let (la1, r) = trackLoginAttempt cfg now la email False;
          (la2, rs) = failed_attempts cfg la1 email nows
      in (la2, r # rs))"

text \<open>
  The calls that touch the attempts map, and a sequence of them.
\<close>

datatype guard_call =
    Track string bool int
  | IsLocked string int int
  | Cleanup int

fun guard_step :: "config \<Rightarrow> login_attempts \<Rightarrow> guard_call \<Rightarrow> login_attempts" where
  "guard_step cfg la (Track email success now) = fst (trackLoginAttempt cfg now la email success)"
| "guard_step cfg la (IsLocked email now now2) = fst (isAccountLocked now now2 la email)"
| "guard_step cfg la (Cleanup now) = cleanup_loginAttempts now la"

definition guard_run :: "config \<Rightarrow> guard_call list \<Rightarrow> login_attempts \<Rightarrow> login_attempts" where
  "guard_run cfg calls la = foldl (guard_step cfg) la calls"

text \<open>
  The failure rule of \<open>recordAttempt\<close> in the words of the specification, which has no
  test of the lock: increment; at the threshold set the lock, reset the counter and
  return locked; else return unlocked with the attempts that remain.
\<close>

definition recordAttempt_failure_spec ::
  "config \<Rightarrow> int \<Rightarrow> login_attempts \<Rightarrow> string \<Rightarrow> login_attempts \<times> attempt_result" where
  "recordAttempt_failure_spec cfg now la email =
     (let record = (case la email of None \<Rightarrow> \<lparr> attempts = 0, lockUntil = None \<rparr> | Some r \<Rightarrow> r);
          n = attempts record + 1
      in if n \<ge> maxLoginAttempts (security cfg)
         then (la(email \<mapsto> \<lparr> attempts = 0, lockUntil = Some (now + lockoutDuration (security cfg)) \<rparr>),
               Locked (ceil_div (lockoutDuration (security cfg)) 1000)
                      (Locked_for (ceil_div (lockoutDuration (security cfg)) 60000)))
         else (la(email \<mapsto> record \<lparr> attempts := n \<rparr>),
               Unlocked (Some (maxLoginAttempts (security cfg) - n))))"

definition attempts_in_range :: "config \<Rightarrow> login_attempts \<Rightarrow> bool" where
  "attempts_in_range cfg la =
     (\<forall>email record. la email = Some record \<longrightarrow>
        0 \<le> attempts record \<and> attempts record \<le> maxLoginAttempts (security cfg) - 1)"

section \<open>Requests and responses\<close>

text \<open>
  The claims a verified token carries, as \<open>jwt.verify\<close> returns them: the payload
  signed by \<open>generateAccessToken\<close> (\<open>id\<close>, \<open>email\<close>, \<open>name\<close>, \<open>role\<close>) or by
  \<open>generateRefreshToken\<close> (\<open>id\<close>, \<open>type\<close>), and the registered claims \<open>iat\<close>,
  \<open>exp\<close>, \<open>iss\<close> and \<open>aud\<close>. A field the payload does not have is \<open>None\<close>.
\<close>

record claims =
  c_id :: int
  c_email :: "string option"
  c_name :: "string option"
  c_role :: "string option"
  c_type :: "string option"
  c_iat :: int
  c_exp :: "int option"
  c_iss :: "string option"
  c_aud :: "string option"

text \<open>
  The parts of an Express request the middleware reads or writes: \<open>req.ip\<close>,
  \<open>req.connection.remoteAddress\<close>, \<open>req.headers.authorization\<close>, and the fields
  \<open>req.user\<close> and \<open>req.token\<close> the authentication middleware attaches.
\<close>

record request =
  req_ip :: "string option"
  req_remoteAddress :: "string option"
  req_authorization :: "string option"
  req_user :: "claims option"
  req_token :: "string option"

text \<open>
  A response is its status, the headers set by \<open>res.set\<close> and the fields of the JSON
  body in the order of the object literal. A field whose value is \<open>undefined\<close> is not
  serialised and is left out.
\<close>

datatype json =
    JNull
  | JBool bool
  | JNum int
  | JStr string
  | JLock lock_message
  | JObj "(string \<times> json) list"

record response =
  status :: int
  headers :: "(string \<times> int) list"
  body :: "(string \<times> json) list"

definition field :: "string \<Rightarrow> response \<Rightarrow> json option" where
  "field name res = map_of (body res) name"

text \<open>
  A middleware either calls \<open>next()\<close>, handing on the request, or ends the request
  with a response.
\<close>

datatype outcome = Next request | Reply response

section \<open>Rate limiter\<close>

text \<open>
  \<open>rateLimitStore\<close> is one module-level \<open>Map\<close>, declared beside \<open>loginAttempts\<close>;
  every middleware returned by \<open>rateLimit\<close> closes over that same map. Its keys are
  \<open>req.ip || req.connection.remoteAddress\<close>, which is \<open>undefined\<close> when both are
  missing.
\<close>

record rate_record =
  count :: int
  resetTime :: int

type_synonym rate_store = "string option \<rightharpoonup> rate_record"

definition client_key :: "request \<Rightarrow> string option" where
  "client_key req =
     (case req_ip req of
        None \<Rightarrow> req_remoteAddress req
      | Some a \<Rightarrow> if a = [] then req_remoteAddress req else Some a)"

definition too_many_requests :: "int \<Rightarrow> response" where
  "too_many_requests retryAfter =
     \<lparr> status = 429,
       headers = [(''Retry-After'', retryAfter)],
       body = [(''success'', JBool False),
               (''message'', JStr ''Too many requests, please try again later''),
               (''code'', JStr ''RATE_LIMIT_EXCEEDED''),
               (''retryAfter'', JNum retryAfter)] \<rparr>"

text \<open>
  \<open>rateLimit(maxRequests, windowMs)\<close> applied to a request: \<open>now\<close> is the value of
  \<open>Date.now()\<close>, \<open>store\<close> the shared map before the call. The result is the map after
  the call and what the middleware did. Every call site gives both arguments, so their
  default values do not occur.
\<close>

definition rateLimit ::
  "config \<Rightarrow> int \<Rightarrow> int \<Rightarrow> int \<Rightarrow> rate_store \<Rightarrow> request \<Rightarrow> rate_store \<times> outcome" where
  "rateLimit cfg maxRequests windowMs now store req =
     (if \<not> enableRateLimiting (features cfg) then (store, Next req)
      else
        (let key = client_key req
         in case store key of
              None \<Rightarrow> (store(key \<mapsto> \<lparr> count = 1, resetTime = now + windowMs \<rparr>), Next req)
            | Some record \<Rightarrow>
                if now > resetTime record
                then (store(key \<mapsto> \<lparr> count = 1, resetTime = now + windowMs \<rparr>), Next req)
                else if count record \<ge> maxRequests
                then (store, Reply (too_many_requests (ceil_div (resetTime record - now) 1000)))
                else (store(key \<mapsto> record \<lparr> count := count record + 1 \<rparr>), Next req)))"

text \<open>
  The two limiters a login request passes: the global one mounted on \<open>/api/\<close> by the
  server, and the one in front of the login route.
\<close>

definition api_limiter :: "config \<Rightarrow> int \<Rightarrow> rate_store \<Rightarrow> request \<Rightarrow> rate_store \<times> outcome" where
  "api_limiter cfg = rateLimit cfg (cfg_maxRequests (rateLimit_cfg cfg)) (cfg_windowMs (rateLimit_cfg cfg))"

definition login_limiter :: "config \<Rightarrow> int \<Rightarrow> rate_store \<Rightarrow> request \<Rightarrow> rate_store \<times> outcome" where
  "login_limiter cfg =
     rateLimit cfg (authMaxRequests (rateLimit_cfg cfg)) (authWindowMs (rateLimit_cfg cfg))"

definition login_limiters :: "config \<Rightarrow> int \<Rightarrow> rate_store \<Rightarrow> request \<Rightarrow> rate_store \<times> outcome" where
  "login_limiters cfg now store req =
     (case api_limiter cfg now store req of
        (store1, Reply res) \<Rightarrow> (store1, Reply res)
      | (store1, Next req1) \<Rightarrow> login_limiter cfg now store1 req1)"

text \<open>
  Consecutive requests of one client through one limiter, one clock value for each.
\<close>

fun rate_requests ::
  "config \<Rightarrow> int \<Rightarrow> int \<Rightarrow> rate_store \<Rightarrow> request \<Rightarrow> int list \<Rightarrow> rate_store \<times> outcome list" where
  "rate_requests cfg m w store req [] = (store, [])"
| "rate_requests cfg m w store req (now # nows) =
     (let (store1, out) = rateLimit cfg m w now store req;
          (store2, outs) = rate_requests cfg m w store1 req nows
      in (store2, out # outs))"

text \<open>
  The same for the two limiters of the login route.
\<close>

fun login_requests ::
  "config \<Rightarrow> rate_store \<Rightarrow> request \<Rightarrow> int list \<Rightarrow> rate_store \<times> outcome list" where
  "login_requests cfg store req [] = (store, [])"
| "login_requests cfg store req (now # nows) =
     (let (store1, out) = login_limiters cfg now store req;
          (store2, outs) = login_requests cfg store1 req nows
      in (store2, out # outs))"

text \<open>
  The periodic cleanup of the rate map (the first loop of the \<open>setInterval\<close>
  callback).
\<close>

definition cleanup_rateLimitStore :: "int \<Rightarrow> rate_store \<Rightarrow> rate_store" where
  "cleanup_rateLimitStore now store =
     (\<lambda>key. case store key of
               None \<Rightarrow> None
             | Some record \<Rightarrow> if now > resetTime record then None else Some record)"

definition client :: request where
  "client = \<lparr> req_ip = Some ''10.0.0.1'', req_remoteAddress = Some ''10.0.0.1'',
              req_authorization = None, req_user = None, req_token = None \<rparr>"

section \<open>Tokens\<close>

text \<open>
  Tokens are signed and verified by the library \<open>jsonwebtoken\<close>, and passwords are
  compared by \<open>bcryptjs\<close>; neither is code of this repository. A decoded token is the
  key its signature was made with and its claims. The encoding of a token as a string
  and the hash comparison are parameters of the model.
\<close>

record jwt =
  jwt_key :: string
  jwt_claims :: claims

record externals =
  jwt_encode :: "jwt \<Rightarrow> string"
  jwt_decode :: "string \<Rightarrow> jwt option"
  bcrypt_compare :: "string \<Rightarrow> string \<Rightarrow> bool"

datatype jwt_error = TokenExpiredError | JsonWebTokenError

text \<open>
  \<open>jwt.verify(token, secretOrKey, options)\<close> in the order of the library's checks: a
  token must be given and well formed; its signature must be the one made with
  \<open>secretOrKey\<close>; its \<open>exp\<close>, in seconds, must lie after the clock (else
  \<open>TokenExpiredError\<close>); then, when the options name them, the audience and the
  issuer must match. Every failure but the expiry is a \<open>JsonWebTokenError\<close>.
  \<open>options\<close> is \<open>None\<close> for the call without options and the pair of issuer and
  audience otherwise.
\<close>

definition jwt_verify ::
  "externals \<Rightarrow> int \<Rightarrow> string \<Rightarrow> string \<Rightarrow> (string \<times> string) option \<Rightarrow> jwt_error + claims" where
  "jwt_verify ext now tok secretOrKey options =
     (if tok = [] then Inl JsonWebTokenError
      else case jwt_decode ext tok of
             None \<Rightarrow> Inl JsonWebTokenError
           | Some j \<Rightarrow>
               if jwt_key j \<noteq> secretOrKey then Inl JsonWebTokenError
               else if (case c_exp (jwt_claims j) of None \<Rightarrow> False | Some e \<Rightarrow> now div 1000 \<ge> e)
               then Inl TokenExpiredError
               else (case options of
                       None \<Rightarrow> Inr (jwt_claims j)
                     | Some (iss, aud) \<Rightarrow>
                         if c_aud (jwt_claims j) \<noteq> Some aud then Inl JsonWebTokenError
                         else if c_iss (jwt_claims j) \<noteq> Some iss then Inl JsonWebTokenError
                         else Inr (jwt_claims j)))"

text \<open>
  \<open>jwt.sign(payload, secretOrKey, { expiresIn, issuer, audience })\<close>: the payload with
  \<open>iat\<close> set to the clock in seconds, \<open>exp\<close> to \<open>iat + expiresIn\<close>, and the issuer and
  audience of the options, signed with \<open>secretOrKey\<close>.
\<close>

definition jwt_sign ::
  "externals \<Rightarrow> int \<Rightarrow> claims \<Rightarrow> string \<Rightarrow> int \<Rightarrow> (string \<times> string) option \<Rightarrow> string" where
  "jwt_sign ext now payload secretOrKey expiresIn options =
     jwt_encode ext
       \<lparr> jwt_key = secretOrKey,
         jwt_claims = payload \<lparr> c_iat := now div 1000,
                                c_exp := Some (now div 1000 + expiresIn),
                                c_iss := map_option fst options,
                                c_aud := map_option snd options \<rparr> \<rparr>"

section \<open>The store behind the routes\<close>

text \<open>
  The tables the authentication routes read and write, with the columns they use. A
  \<open>db.get\<close> with a \<open>WHERE\<close> clause is the first row that satisfies it; the time
  \<open>datetime('now')\<close> of the store is the clock of the handler, in milliseconds.
\<close>

record user_row =
  u_id :: int
  u_email :: string
  u_password :: string
  u_name :: string
  u_role :: string
  u_department :: "string option"

record refresh_token_row =
  rt_user_id :: int
  rt_token :: string
  rt_expires_at :: int

record activity_row =
  a_user_id :: int
  a_action :: string
  a_entity_type :: string
  a_entity_id :: int
  a_details :: string

record database =
  users :: "user_row list"
  refresh_tokens :: "refresh_token_row list"
  activity_log :: "activity_row list"

section \<open>Token functions of the middleware\<close>

definition generateAccessToken :: "externals \<Rightarrow> config \<Rightarrow> int \<Rightarrow> user_row \<Rightarrow> string" where
  "generateAccessToken ext cfg now user =
     jwt_sign ext now
       \<lparr> c_id = u_id user, c_email = Some (u_email user), c_name = Some (u_name user),
         c_role = Some (u_role user), c_type = None, c_iat = 0, c_exp = None,
         c_iss = None, c_aud = None \<rparr>
       (secret (jwt cfg)) (accessTokenExpiry (jwt cfg))
       (Some (issuer (jwt cfg), audience (jwt cfg)))"

definition generateRefreshToken :: "externals \<Rightarrow> config \<Rightarrow> int \<Rightarrow> user_row \<Rightarrow> string" where
  "generateRefreshToken ext cfg now user =
     jwt_sign ext now
       \<lparr> c_id = u_id user, c_email = None, c_name = None, c_role = None,
         c_type = Some ''refresh'', c_iat = 0, c_exp = None, c_iss = None, c_aud = None \<rparr>
       (refreshSecret (jwt cfg)) (refreshTokenExpiry (jwt cfg)) None"

definition verifyRefreshToken :: "externals \<Rightarrow> config \<Rightarrow> int \<Rightarrow> string \<Rightarrow> claims option" where
  "verifyRefreshToken ext cfg now tok =
     (case jwt_verify ext now tok (refreshSecret (jwt cfg)) None of
        Inr decoded \<Rightarrow> Some decoded
      | Inl error \<Rightarrow> None)"

section \<open>Access control middleware\<close>

definition startsWith :: "string \<Rightarrow> string \<Rightarrow> bool" where
  "startsWith s p = (take (length p) s = p)"

text \<open>
  \<open>s.split(c)\<close>, and the element at index 1 of the result, which is \<open>undefined\<close> when
  the string has no separator.
\<close>

fun split_on :: "char \<Rightarrow> string \<Rightarrow> string list" where
  "split_on c [] = [[]]"
| "split_on c (x # xs) =
     (if x = c then [] # split_on c xs
      else (case split_on c xs of
              [] \<Rightarrow> [[x]]
            | w # ws \<Rightarrow> (x # w) # ws))"

definition bearer_token :: "string \<Rightarrow> string option" where
  "bearer_token authHeader =
     (case split_on CHR '' '' authHeader of
        a # b # rest \<Rightarrow> Some b
      | _ \<Rightarrow> None)"

definition failure :: "int \<Rightarrow> string \<Rightarrow> string \<Rightarrow> response" where
  "failure st message code =
     \<lparr> status = st, headers = [],
       body = [(''success'', JBool False), (''message'', JStr message), (''code'', JStr code)] \<rparr>"

text \<open>
  \<open>authenticate(req, res, next)\<close>; \<open>now\<close> is the clock \<open>jwt.verify\<close> reads. A header
  that starts with \<open>'Bearer '\<close> always has an element at index 1; were it
  \<open>undefined\<close>, \<open>jwt.verify\<close> would throw a \<open>JsonWebTokenError\<close>.
\<close>

definition authenticate :: "externals \<Rightarrow> config \<Rightarrow> int \<Rightarrow> request \<Rightarrow> outcome" where
  "authenticate ext cfg now req =
     (case req_authorization req of
        None \<Rightarrow> Reply (failure 401 ''Access token required'' ''MISSING_TOKEN'')
      | Some authHeader \<Rightarrow>
          if authHeader = [] \<or> \<not> startsWith authHeader ''Bearer ''
          then Reply (failure 401 ''Access token required'' ''MISSING_TOKEN'')
          else
            (case bearer_token authHeader of
               None \<Rightarrow> Reply (failure 401 ''Invalid token'' ''INVALID_TOKEN'')
             | Some tok \<Rightarrow>
                 (case jwt_verify ext now tok (secret (jwt cfg))
                         (Some (issuer (jwt cfg), audience (jwt cfg))) of
                    Inr decoded \<Rightarrow> Next (req \<lparr> req_user := Some decoded, req_token := Some tok \<rparr>)
                  | Inl TokenExpiredError \<Rightarrow> Reply (failure 401 ''Token expired'' ''TOKEN_EXPIRED'')
                  | Inl JsonWebTokenError \<Rightarrow> Reply (failure 401 ''Invalid token'' ''INVALID_TOKEN''))))"

definition optionalAuth :: "externals \<Rightarrow> config \<Rightarrow> int \<Rightarrow> request \<Rightarrow> outcome" where
  "optionalAuth ext cfg now req =
     (case req_authorization req of
        None \<Rightarrow> Next req
      | Some authHeader \<Rightarrow>
          if authHeader \<noteq> [] \<and> startsWith authHeader ''Bearer ''
          then
            (case bearer_token authHeader of
               None \<Rightarrow> Next req
             | Some tok \<Rightarrow>
                 (case jwt_verify ext now tok (secret (jwt cfg)) None of
                    Inr decoded \<Rightarrow> Next (req \<lparr> req_user := Some decoded, req_token := Some tok \<rparr>)
                  | Inl error \<Rightarrow> Next req))
          else Next req)"

text \<open>
  \<open>authorize(...allowedRoles)\<close> applied to a request. \<open>allowedRoles.includes\<close> compares with
  \<open>req.user.role\<close>, which is \<open>undefined\<close> when the token has no role.
\<close>

definition array_includes :: "string list \<Rightarrow> string option \<Rightarrow> bool" where
  "array_includes allowedRoles role = (case role of None \<Rightarrow> False | Some r \<Rightarrow> r \<in> set allowedRoles)"

definition authorize :: "string list \<Rightarrow> request \<Rightarrow> outcome" where
  "authorize allowedRoles req =
     (case req_user req of
        None \<Rightarrow> Reply (failure 401 ''Authentication required'' ''AUTH_REQUIRED'')
      | Some u \<Rightarrow>
          if \<not> array_includes allowedRoles (c_role u)
          then Reply (failure 403 ''Insufficient permissions'' ''FORBIDDEN'')
          else Next req)"

text \<open>
  A route declared as \<open>router.get(path, authenticate, authorize(...), handler)\<close>, up to
  the handler.
\<close>

definition protected_route ::
  "externals \<Rightarrow> config \<Rightarrow> string list \<Rightarrow> int \<Rightarrow> request \<Rightarrow> outcome" where
  "protected_route ext cfg allowedRoles now req =
     (case authenticate ext cfg now req of
        Reply res \<Rightarrow> Reply res
      | Next req1 \<Rightarrow> authorize allowedRoles req1)"

section \<open>Authentication routes\<close>

text \<open>
  The handler of \<open>POST /login\<close>, after the rate limiters and the validation of the
  body, on the attempts map and the store. \<open>now\<close> and \<open>now2\<close> are the two readings
  of the clock in \<open>isAccountLocked\<close>; \<open>now3\<close> is the clock of everything after it.
  The password test is \<open>bcrypt.compare\<close>. The result of \<open>trackLoginAttempt\<close> is used
  for its field \<open>attemptsRemaining\<close> only, which is \<open>undefined\<close> in a lock result.
  The store is a value here and its calls do not fail, so the \<open>catch\<close> branch that
  answers 500 is not reached.
\<close>

definition account_locked :: "int \<Rightarrow> lock_message \<Rightarrow> response" where
  "account_locked remainingSeconds message =
     \<lparr> status = 423, headers = [],
       body = [(''success'', JBool False), (''message'', JLock message),
               (''code'', JStr ''ACCOUNT_LOCKED''), (''retryAfter'', JNum remainingSeconds)] \<rparr>"

definition invalid_credentials :: "int option \<Rightarrow> response" where
  "invalid_credentials attemptsRemaining =
     \<lparr> status = 401, headers = [],
       body = [(''success'', JBool False), (''message'', JStr ''Invalid email or password''),
               (''code'', JStr ''INVALID_CREDENTIALS'')]
              @ (case attemptsRemaining of
                   None \<Rightarrow> []
                 | Some n \<Rightarrow> [(''attemptsRemaining'', JNum n)]) \<rparr>"

definition attemptsRemaining :: "attempt_result \<Rightarrow> int option" where
  "attemptsRemaining r = (case r of Unlocked n \<Rightarrow> n | Locked remainingSeconds message \<Rightarrow> None)"

definition user_json :: "user_row \<Rightarrow> json" where
  "user_json user =
     JObj [(''id'', JNum (u_id user)), (''email'', JStr (u_email user)),
           (''name'', JStr (u_name user)), (''role'', JStr (u_role user)),
           (''department'', (case u_department user of None \<Rightarrow> JNull | Some d \<Rightarrow> JStr d))]"

definition login ::
  "externals \<Rightarrow> config \<Rightarrow> int \<Rightarrow> int \<Rightarrow> int \<Rightarrow> login_attempts \<times> database \<Rightarrow> string \<Rightarrow> string
     \<Rightarrow> (login_attempts \<times> database) \<times> response" where
  "login ext cfg now now2 now3 state email password =
     (let (la, db) = state
      in case isAccountLocked now now2 la email of
           (la1, Locked remainingSeconds message) \<Rightarrow>
             ((la1, db), account_locked remainingSeconds message)
         | (la1, Unlocked n) \<Rightarrow>
             (case find (\<lambda>u. u_email u = email) (users db) of
                None \<Rightarrow>
                  ((fst (trackLoginAttempt cfg now3 la1 email False), db),
                   invalid_credentials None)
              | Some user \<Rightarrow>
                  if \<not> bcrypt_compare ext password (u_password user)
                  then
                    (let (la2, attemptResult) = trackLoginAttempt cfg now3 la1 email False
                     in ((la2, db), invalid_credentials (attemptsRemaining attemptResult)))
                  else
                    (let la2 = fst (trackLoginAttempt cfg now3 la1 email True);
                         accessToken = generateAccessToken ext cfg now3 user;
                         refreshToken = generateRefreshToken ext cfg now3 user;
                         db1 = db \<lparr> refresh_tokens := refresh_tokens db @
                                 [\<lparr> rt_user_id = u_id user, rt_token = refreshToken,
                                    rt_expires_at = now3 + 7 * 24 * 60 * 60 * 1000 \<rparr>] \<rparr>;
                         db2 = db1 \<lparr> activity_log := activity_log db1 @
                                 [\<lparr> a_user_id = u_id user, a_action = ''user_login'',
                                    a_entity_type = ''user'', a_entity_id = u_id user,
                                    a_details = ''User logged in'' \<rparr>] \<rparr>
                     in ((la2, db2),
                         \<lparr> status = 200, headers = [],
                           body = [(''success'', JBool True), (''message'', JStr ''Login successful''),
                                   (''user'', user_json user),
                                   (''accessToken'', JStr accessToken),
                                   (''refreshToken'', JStr refreshToken)] \<rparr>))))"

text \<open>
  Consecutive login requests for one email, each with its password and its three clock
  readings; the responses are collected in order.
\<close>

fun logins ::
  "externals \<Rightarrow> config \<Rightarrow> login_attempts \<times> database \<Rightarrow> string \<Rightarrow> (string \<times> int \<times> int \<times> int) list
     \<Rightarrow> (login_attempts \<times> database) \<times> response list" where
  "logins ext cfg state email [] = (state, [])"
| "logins ext cfg state email ((password, now, now2, now3) # rest) =
     (let (state1, res) = login ext cfg now now2 now3 state email password;
          (state2, ress) = logins ext cfg state1 email rest
      in (state2, res # ress))"

text \<open>
  The handler of \<open>POST /refresh\<close>; \<open>refreshToken\<close> is the field of the body, \<open>None\<close>
  when it is missing. The handler only reads the store.
\<close>

definition refresh ::
  "externals \<Rightarrow> config \<Rightarrow> int \<Rightarrow> database \<Rightarrow> string option \<Rightarrow> database \<times> response" where
  "refresh ext cfg now db refreshToken =
     (case refreshToken of
        None \<Rightarrow> (db, failure 400 ''Refresh token required'' ''MISSING_REFRESH_TOKEN'')
      | Some tok \<Rightarrow>
          if tok = [] then (db, failure 400 ''Refresh token required'' ''MISSING_REFRESH_TOKEN'')
          else
            (case verifyRefreshToken ext cfg now tok of
               None \<Rightarrow>
                 (db, failure 401 ''Invalid or expired refresh token'' ''INVALID_REFRESH_TOKEN'')
             | Some decoded \<Rightarrow>
                 (case find (\<lambda>r. rt_user_id r = c_id decoded \<and> rt_token r = tok
                                   \<and> rt_expires_at r > now) (refresh_tokens db) of
                    None \<Rightarrow>
                      (db, failure 401 ''Refresh token not found or expired'' ''TOKEN_NOT_FOUND'')
                  | Some storedToken \<Rightarrow>
                      (case find (\<lambda>u. u_id u = c_id decoded) (users db) of
                         None \<Rightarrow> (db, failure 401 ''User not found'' ''USER_NOT_FOUND'')
                       | Some user \<Rightarrow>
                           (db, \<lparr> status = 200, headers = [],
                                  body = [(''success'', JBool True),
                                          (''accessToken'',
                                           JStr (generateAccessToken ext cfg now user))] \<rparr>)))))"

text \<open>
  The handler of \<open>POST /logout\<close>, which runs after \<open>authenticate\<close>: with a refresh
  token in the body it deletes that token of the authenticated user, without one it
  deletes all the tokens of the user. Without \<open>req.user\<close> the read of \<open>req.user.id\<close>
  throws, and the handler answers 500.
\<close>

definition logout :: "database \<Rightarrow> request \<Rightarrow> string option \<Rightarrow> database \<times> response" where
  "logout db req refreshToken =
     (case req_user req of
        None \<Rightarrow>
          (db, \<lparr> status = 500, headers = [],
                 body = [(''success'', JBool False), (''message'', JStr ''Logout failed'')] \<rparr>)
      | Some u \<Rightarrow>
          (let db1 =
             (case refreshToken of
                None \<Rightarrow>
                  db \<lparr> refresh_tokens := filter (\<lambda>r. rt_user_id r \<noteq> c_id u) (refresh_tokens db) \<rparr>
              | Some tok \<Rightarrow>
                  if tok = []
                  then db \<lparr> refresh_tokens :=
                              filter (\<lambda>r. rt_user_id r \<noteq> c_id u) (refresh_tokens db) \<rparr>
                  else db \<lparr> refresh_tokens :=
                              filter (\<lambda>r. \<not> (rt_user_id r = c_id u \<and> rt_token r = tok))
                                (refresh_tokens db) \<rparr>)
           in (db1, \<lparr> status = 200, headers = [],
                      body = [(''success'', JBool True),
                              (''message'', JStr ''Logged out successfully'')] \<rparr>)))"

section \<open>Sample data\<close>

text \<open>
  One professor, a password test that accepts the stored password only, and a token
  codec that knows three tokens: the professor's refresh token, an access token of the
  professor, and a token signed with the access secret that names no issuer and no
  audience.
\<close>

definition professor :: user_row where
  "professor = \<lparr> u_id = 1, u_email = ''prof@x.edu'', u_password = ''right'',
                 u_name = ''Prof'', u_role = ''professor'', u_department = None \<rparr>"

definition professor_refresh :: jwt where
  "professor_refresh =
     \<lparr> jwt_key = refreshSecret (jwt default_config),
       jwt_claims = \<lparr> c_id = 1, c_email = None, c_name = None, c_role = None,
                      c_type = Some ''refresh'', c_iat = 0, c_exp = Some 604800,
                      c_iss = None, c_aud = None \<rparr> \<rparr>"

definition professor_access :: jwt where
  "professor_access =
     \<lparr> jwt_key = secret (jwt default_config),
       jwt_claims = \<lparr> c_id = 1, c_email = Some ''prof@x.edu'', c_name = Some ''Prof'',
                      c_role = Some ''professor'', c_type = None, c_iat = 0, c_exp = Some 900,
                      c_iss = Some ''EduPay Platform'', c_aud = Some ''EduPay Users'' \<rparr> \<rparr>"

definition foreign_token :: jwt where
  "foreign_token =
     \<lparr> jwt_key = secret (jwt default_config),
       jwt_claims = \<lparr> c_id = 1, c_email = None, c_name = None, c_role = Some ''admin'',
                      c_type = None, c_iat = 0, c_exp = Some 900, c_iss = None, c_aud = None \<rparr> \<rparr>"

definition sample_externals :: externals where
  "sample_externals =
     \<lparr> jwt_encode = (\<lambda>j. if c_type (jwt_claims j) = Some ''refresh'' then ''rrr'' else ''aaa''),
       jwt_decode = (\<lambda>tok. if tok = ''rrr'' then Some professor_refresh
                            else if tok = ''aaa'' then Some professor_access
                            else if tok = ''fff'' then Some foreign_token
                            else None),
       bcrypt_compare = (\<lambda>password hash. password = hash) \<rparr>"

definition sample_db :: database where
  "sample_db =
     \<lparr> users = [professor],
       refresh_tokens = [\<lparr> rt_user_id = 1, rt_token = ''rrr'', rt_expires_at = 604800000 \<rparr>],
       activity_log = [] \<rparr>"

definition bearer_request :: "string \<Rightarrow> request" where
  "bearer_request tok =
     \<lparr> req_ip = Some ''10.0.0.1'', req_remoteAddress = Some ''10.0.0.1'',
       req_authorization = Some (''Bearer '' @ tok), req_user = None, req_token = None \<rparr>"

section \<open>Notions used in the statements\<close>

text \<open>
  A token string is well signed for a key when it is not empty and decodes to a token
  whose signature was made with that key. A decoded token is expired at a clock value
  when it has an \<open>exp\<close> that the clock, in seconds, has reached. It is issued for the
  configuration when its issuer and audience are the configured ones.
\<close>

definition well_signed :: "externals \<Rightarrow> string \<Rightarrow> string \<Rightarrow> jwt \<Rightarrow> bool" where
  "well_signed ext key tok j = (tok \<noteq> [] \<and> jwt_decode ext tok = Some j \<and> jwt_key j = key)"

definition expired :: "int \<Rightarrow> jwt \<Rightarrow> bool" where
  "expired now j = (case c_exp (jwt_claims j) of None \<Rightarrow> False | Some e \<Rightarrow> e \<le> now div 1000)"

definition issued_for :: "config \<Rightarrow> jwt \<Rightarrow> bool" where
  "issued_for cfg j =
     (c_iss (jwt_claims j) = Some (issuer (jwt cfg)) \<and> c_aud (jwt_claims j) = Some (audience (jwt cfg)))"

section \<open>Properties of the arithmetic\<close>

lemma ceil_div_ceiling: "ceil_div x d = \<lceil>real_of_int x / real_of_int d\<rceil>"
proof -
  have "(- x) div d = \<lfloor>real_of_int (- x) / real_of_int d\<rfloor>"
    by (rule floor_divide_of_int_eq [symmetric])
  then show ?thesis
    by (simp add: ceil_div_def ceiling_def)
qed

section \<open>Properties of the login attempt tracker\<close>

lemma trackLoginAttempt_success:
  "trackLoginAttempt cfg now la email True = (la(email := None), Unlocked None)"
  by (simp add: trackLoginAttempt_def Let_def)

lemma trackLoginAttempt_first_failure:
  assumes "la email = None"
  shows "trackLoginAttempt cfg now la email False =
     (if 1 \<ge> maxLoginAttempts (security cfg)
      then (la(email \<mapsto> \<lparr> attempts = 0, lockUntil = Some (now + lockoutDuration (security cfg)) \<rparr>),
            Locked (ceil_div (lockoutDuration (security cfg)) 1000)
                   (Locked_for (ceil_div (lockoutDuration (security cfg)) 60000)))
      else (la(email \<mapsto> \<lparr> attempts = 1, lockUntil = None \<rparr>),
            Unlocked (Some (maxLoginAttempts (security cfg) - 1))))"
  using assms by (simp add: trackLoginAttempt_def Let_def lock_active_def)

lemma trackLoginAttempt_failure_no_lock:
  assumes "la email = Some r" and "\<not> lock_active (lockUntil r) now"
  shows "trackLoginAttempt cfg now la email False =
     (if attempts r + 1 \<ge> maxLoginAttempts (security cfg)
      then (la(email \<mapsto> \<lparr> attempts = 0, lockUntil = Some (now + lockoutDuration (security cfg)) \<rparr>),
            Locked (ceil_div (lockoutDuration (security cfg)) 1000)
                   (Locked_for (ceil_div (lockoutDuration (security cfg)) 60000)))
      else (la(email \<mapsto> r \<lparr> attempts := attempts r + 1 \<rparr>),
            Unlocked (Some (maxLoginAttempts (security cfg) - (attempts r + 1)))))"
  using assms by (cases r) (simp add: trackLoginAttempt_def Let_def)

lemma trackLoginAttempt_failure_locked:
  assumes "la email = Some r" and "lockUntil r = Some t" and "t \<noteq> 0" and "now < t"
  shows "trackLoginAttempt cfg now la email False = (la, locked_result (t - now))"
proof -
  have "la(email \<mapsto> r) = la"
    using assms(1) by (rule map_upd_triv)
  then show ?thesis
    using assms by (simp add: trackLoginAttempt_def Let_def lock_active_def)
qed

lemma failed_attempts_append:
  "failed_attempts cfg la email (xs @ ys) =
     (let (la1, rs) = failed_attempts cfg la email xs;
          (la2, rs') = failed_attempts cfg la1 email ys
      in (la2, rs @ rs'))"
  by (induction xs arbitrary: la) (simp_all add: Let_def split: prod.splits)

lemma failed_attempts_counting:
  assumes "la email = Some \<lparr> attempts = a, lockUntil = None \<rparr>"
    and "a + int (length nows) < maxLoginAttempts (security cfg)"
  shows "failed_attempts cfg la email nows =
     (la(email \<mapsto> \<lparr> attempts = a + int (length nows), lockUntil = None \<rparr>),
      map (\<lambda>i. Unlocked (Some (maxLoginAttempts (security cfg) - a - int i))) [1..<Suc (length nows)])"
  using assms
proof (induction nows arbitrary: la a)
  case Nil
  then show ?case by (simp add: map_upd_triv)
next
  case (Cons now nows)
  let ?la1 = "la(email \<mapsto> \<lparr> attempts = a + 1, lockUntil = None \<rparr>)"
  have step: "trackLoginAttempt cfg now la email False =
     (?la1, Unlocked (Some (maxLoginAttempts (security cfg) - (a + 1))))"
    using Cons.prems by (simp add: trackLoginAttempt_failure_no_lock lock_active_def)
  have "failed_attempts cfg ?la1 email nows =
     (?la1(email \<mapsto> \<lparr> attempts = (a + 1) + int (length nows), lockUntil = None \<rparr>),
      map (\<lambda>i. Unlocked (Some (maxLoginAttempts (security cfg) - (a + 1) - int i)))
        [1..<Suc (length nows)])"
    using Cons.prems by (intro Cons.IH) simp_all
  then have rest: "failed_attempts cfg ?la1 email nows =
     (la(email \<mapsto> \<lparr> attempts = a + int (length (now # nows)), lockUntil = None \<rparr>),
      map (\<lambda>i. Unlocked (Some (maxLoginAttempts (security cfg) - (a + 1) - int i)))
        [1..<Suc (length nows)])"
    by (simp add: add.assoc)
  have shift: "map (\<lambda>i. Unlocked (Some (maxLoginAttempts (security cfg) - a - int i)))
        [1..<Suc (length (now # nows))] =
      Unlocked (Some (maxLoginAttempts (security cfg) - (a + 1))) #
      map (\<lambda>i. Unlocked (Some (maxLoginAttempts (security cfg) - (a + 1) - int i)))
        [1..<Suc (length nows)]"
  proof -
    have "[1..<Suc (length (now # nows))] = 1 # map Suc [1..<Suc (length nows)]"
      by (simp add: upt_conv_Cons map_Suc_upt del: upt_Suc)
    then show ?thesis
      by (simp add: comp_def algebra_simps del: upt_Suc)
  qed
  show ?case
    unfolding shift
    by (simp only: failed_attempts.simps step rest Let_def prod.case)
qed

lemma locked_result_ceiling:
  "locked_result ms =
     Locked \<lceil>real_of_int ms / 1000\<rceil> (Try_again_in (ceil_div (ceil_div ms 1000) 60))"
  using ceil_div_ceiling [of ms 1000] by (simp add: locked_result_def Let_def)

lemma recordAttempt_failure_spec_eq:
  assumes "case la email of None \<Rightarrow> True | Some r \<Rightarrow> \<not> lock_active (lockUntil r) now"
  shows "trackLoginAttempt cfg now la email False = recordAttempt_failure_spec cfg now la email"
proof (cases "la email")
  case None
  then show ?thesis
    by (simp add: trackLoginAttempt_first_failure recordAttempt_failure_spec_def Let_def)
next
  case (Some r)
  with assms have "\<not> lock_active (lockUntil r) now" by simp
  with Some show ?thesis
    by (simp add: trackLoginAttempt_failure_no_lock recordAttempt_failure_spec_def Let_def)
qed

subsection \<open>Lockout at the threshold\<close>

text \<open>
  Consecutive failures of an identity with no record, for every configuration: fewer
  failures than the threshold count up and return the attempts that remain; the failure
  that completes the threshold sets the lock, resets the counter and returns the lock
  result, whose seconds are \<open>Math.ceil(lockoutDuration / 1000)\<close>.
\<close>

lemma failed_attempts_lockout:
  assumes "la email = None"
  shows "(nows \<noteq> [] \<and> int (length nows) < maxLoginAttempts (security cfg) \<longrightarrow>
            failed_attempts cfg la email nows =
              (la(email \<mapsto> \<lparr> attempts = int (length nows), lockUntil = None \<rparr>),
               map (\<lambda>i. Unlocked (Some (maxLoginAttempts (security cfg) - int i)))
                 [1..<Suc (length nows)]))
       \<and> (int (length nows) = maxLoginAttempts (security cfg) - 1 \<longrightarrow>
            failed_attempts cfg la email (nows @ [now]) =
              (la(email \<mapsto> \<lparr> attempts = 0,
                               lockUntil = Some (now + lockoutDuration (security cfg)) \<rparr>),
               map (\<lambda>i. Unlocked (Some (maxLoginAttempts (security cfg) - int i)))
                 [1..<Suc (length nows)] @
               [Locked \<lceil>real_of_int (lockoutDuration (security cfg)) / 1000\<rceil>
                  (Locked_for (ceil_div (lockoutDuration (security cfg)) 60000))]))
       \<and> trackLoginAttempt cfg now' la' email' True = (la'(email' := None), Unlocked None)"
proof -
  let ?n = "maxLoginAttempts (security cfg)"
  let ?D = "lockoutDuration (security cfg)"
  have below: "failed_attempts cfg la email ts =
      (la(email \<mapsto> \<lparr> attempts = int (length ts), lockUntil = None \<rparr>),
       map (\<lambda>i. Unlocked (Some (?n - int i))) [1..<Suc (length ts)])"
    if "ts \<noteq> []" and "int (length ts) < ?n" for ts
  proof -
    from that(1) obtain t ts' where ts: "ts = t # ts'"
      by (cases ts) auto
    let ?la1 = "la(email \<mapsto> \<lparr> attempts = 1, lockUntil = None \<rparr>)"
    have first: "trackLoginAttempt cfg t la email False = (?la1, Unlocked (Some (?n - 1)))"
      using assms(1) that(2) ts by (simp add: trackLoginAttempt_first_failure)
    have "failed_attempts cfg ?la1 email ts' =
        (?la1(email \<mapsto> \<lparr> attempts = 1 + int (length ts'), lockUntil = None \<rparr>),
         map (\<lambda>i. Unlocked (Some (?n - 1 - int i))) [1..<Suc (length ts')])"
      using that(2) ts by (intro failed_attempts_counting) simp_all
    then have rest: "failed_attempts cfg ?la1 email ts' =
        (la(email \<mapsto> \<lparr> attempts = int (length ts), lockUntil = None \<rparr>),
         map (\<lambda>i. Unlocked (Some (?n - 1 - int i))) [1..<Suc (length ts')])"
      by (simp add: ts)
    have "[1..<Suc (length ts)] = 1 # map Suc [1..<Suc (length ts')]"
      by (simp add: ts upt_conv_Cons map_Suc_upt del: upt_Suc)
    then have shift: "map (\<lambda>i. Unlocked (Some (?n - int i))) [1..<Suc (length ts)] =
        Unlocked (Some (?n - 1)) #
        map (\<lambda>i. Unlocked (Some (?n - 1 - int i))) [1..<Suc (length ts')]"
      by (simp add: comp_def algebra_simps del: upt_Suc)
    show ?thesis
      unfolding shift
      by (simp only: ts failed_attempts.simps first rest [unfolded ts] Let_def prod.case)
  qed
  have lock: "failed_attempts cfg la email (nows @ [now]) =
      (la(email \<mapsto> \<lparr> attempts = 0, lockUntil = Some (now + ?D) \<rparr>),
       map (\<lambda>i. Unlocked (Some (?n - int i))) [1..<Suc (length nows)] @
       [Locked \<lceil>real_of_int ?D / 1000\<rceil> (Locked_for (ceil_div ?D 60000))])"
    if len: "int (length nows) = ?n - 1"
  proof (cases "nows = []")
    case True
    with len have "?n = 1" by simp
    with True assms(1) show ?thesis
      by (simp add: trackLoginAttempt_first_failure ceil_div_ceiling)
  next
    case False
    let ?la1 = "la(email \<mapsto> \<lparr> attempts = int (length nows), lockUntil = None \<rparr>)"
    have pre: "failed_attempts cfg la email nows =
        (?la1, map (\<lambda>i. Unlocked (Some (?n - int i))) [1..<Suc (length nows)])"
      using False len by (intro below) simp_all
    have last: "trackLoginAttempt cfg now ?la1 email False =
        (la(email \<mapsto> \<lparr> attempts = 0, lockUntil = Some (now + ?D) \<rparr>),
         Locked \<lceil>real_of_int ?D / 1000\<rceil> (Locked_for (ceil_div ?D 60000)))"
      using len
      by (subst trackLoginAttempt_failure_no_lock [where r = "\<lparr> attempts = int (length nows), lockUntil = None \<rparr>"])
         (simp_all add: lock_active_def ceil_div_ceiling)
    show ?thesis
      by (simp add: failed_attempts_append pre last Let_def del: upt_Suc)
  qed
  show ?thesis
    using below [of nows] lock by (simp add: trackLoginAttempt_success del: upt_Suc)
qed

text \<open>
  Claim C5. The configuration module fixes \<open>lockoutDuration\<close> at \<open>15 * 60 * 1000\<close>;
  the statement is for every lockout of a whole number of seconds. For an identity with
  no record: every run of fewer failed calls than \<open>maxLoginAttempts\<close> leaves the
  counter at the number of calls and returns, at the \<open>i\<close>-th call, unlocked with
  \<open>attemptsRemaining = maxLoginAttempts - i\<close>; the call that completes
  \<open>maxLoginAttempts\<close> consecutive failures returns locked with
  \<open>remainingSeconds = lockoutDuration / 1000\<close>, stores
  \<open>lockUntil = now + lockoutDuration\<close> and resets the stored counter to 0; and a call
  with \<open>success = true\<close>, on any map and at any time, deletes the record.
\<close>

theorem trackLoginAttempt_threshold_lockout:
  assumes "la email = None"
    and "lockoutDuration (security cfg) mod 1000 = 0"
  shows "(nows \<noteq> [] \<and> int (length nows) < maxLoginAttempts (security cfg) \<longrightarrow>
            failed_attempts cfg la email nows =
              (la(email \<mapsto> \<lparr> attempts = int (length nows), lockUntil = None \<rparr>),
               map (\<lambda>i. Unlocked (Some (maxLoginAttempts (security cfg) - int i)))
                 [1..<Suc (length nows)]))
       \<and> (int (length nows) = maxLoginAttempts (security cfg) - 1 \<longrightarrow>
            failed_attempts cfg la email (nows @ [now]) =
              (la(email \<mapsto> \<lparr> attempts = 0,
                               lockUntil = Some (now + lockoutDuration (security cfg)) \<rparr>),
               map (\<lambda>i. Unlocked (Some (maxLoginAttempts (security cfg) - int i)))
                 [1..<Suc (length nows)] @
               [Locked (lockoutDuration (security cfg) div 1000)
                  (Locked_for (ceil_div (lockoutDuration (security cfg)) 60000))]))
       \<and> real_of_int (lockoutDuration (security cfg) div 1000) =
           real_of_int (lockoutDuration (security cfg)) / 1000
       \<and> trackLoginAttempt cfg now' la' email' True = (la'(email' := None), Unlocked None)"
proof -
  let ?D = "lockoutDuration (security cfg)"
  from assms(2) have dvd: "1000 dvd ?D"
    by (simp add: dvd_eq_mod_eq_0)
  have quotient: "real_of_int (?D div 1000) = real_of_int ?D / 1000"
    using real_of_int_div [OF dvd] by simp
  have "\<lceil>real_of_int ?D / 1000\<rceil> = \<lceil>real_of_int (?D div 1000)\<rceil>"
    by (simp only: quotient)
  then have ceil: "\<lceil>real_of_int ?D / 1000\<rceil> = ?D div 1000"
    by simp
  show ?thesis
    using assms(1)
      failed_attempts_lockout [where la = la and email = email and nows = nows and cfg = cfg
        and now = now and now' = now' and la' = la' and email' = email']
    by (simp only: ceil quotient) simp
qed

theorem trackLoginAttempt_threshold_lockout_witness:
  "Map.empty ''prof@x.edu'' = (None :: attempt_record option)
   \<and> lockoutDuration (security default_config) mod 1000 = 0
   \<and> failed_attempts default_config Map.empty ''prof@x.edu'' [10, 20, 30, 40] =
       ([''prof@x.edu'' \<mapsto> \<lparr> attempts = 4, lockUntil = None \<rparr>],
        [Unlocked (Some 4), Unlocked (Some 3), Unlocked (Some 2), Unlocked (Some 1)])
   \<and> failed_attempts default_config Map.empty ''prof@x.edu'' ([10, 20, 30, 40] @ [50]) =
       ([''prof@x.edu'' \<mapsto> \<lparr> attempts = 0, lockUntil = Some 900050 \<rparr>],
        [Unlocked (Some 4), Unlocked (Some 3), Unlocked (Some 2), Unlocked (Some 1),
         Locked 900 (Locked_for 15)])
   \<and> real_of_int 900 = real_of_int (lockoutDuration (security default_config)) / 1000"
proof -
  have h1: "Map.empty ''prof@x.edu'' = (None :: attempt_record option)" by simp
  have h2: "lockoutDuration (security default_config) mod 1000 = 0"
    by (simp add: default_config_def)
  show ?thesis
    using trackLoginAttempt_threshold_lockout [where la = Map.empty and email = "''prof@x.edu''",
        OF h1 h2, where nows = "[10, 20, 30, 40]" and now = 50]
    by (simp add: default_config_def ceil_div_def)
qed

subsection \<open>Expiry of a lock\<close>

text \<open>
  Claim C7. For an identity whose record carries a lock (\<open>lockUntil\<close> neither
  \<open>null\<close> nor zero): once \<open>now \<ge> lockUntil\<close>, \<open>isAccountLocked\<close> returns unlocked
  and the only change of the map is that the record is deleted; while
  \<open>now < lockUntil\<close> it returns locked with
  \<open>remainingSeconds = ceil((lockUntil - now2) / 1000)\<close>, \<open>now2\<close> being the second
  reading of the clock, and leaves the map as it was.
\<close>

theorem isAccountLocked_expiry:
  assumes "la email = Some r" and "lockUntil r = Some t" and "t \<noteq> 0"
  shows "(t \<le> now \<longrightarrow> isAccountLocked now now2 la email = (la(email := None), Unlocked None))
       \<and> (now < t \<longrightarrow> isAccountLocked now now2 la email =
             (la, Locked \<lceil>real_of_int (t - now2) / 1000\<rceil>
                    (Try_again_in (ceil_div (ceil_div (t - now2) 1000) 60))))"
  using assms by (simp add: isAccountLocked_def locked_result_ceiling)

theorem isAccountLocked_expiry_witness:
  "isAccountLocked 900000 900000 [''prof@x.edu'' \<mapsto> \<lparr> attempts = 0, lockUntil = Some 900000 \<rparr>]
       ''prof@x.edu'' = (Map.empty, Unlocked None)
   \<and> isAccountLocked 1000 1000 [''prof@x.edu'' \<mapsto> \<lparr> attempts = 0, lockUntil = Some 900000 \<rparr>]
       ''prof@x.edu'' =
       ([''prof@x.edu'' \<mapsto> \<lparr> attempts = 0, lockUntil = Some 900000 \<rparr>],
        Locked 899 (Try_again_in 15))"
proof -
  let ?r = "\<lparr> attempts = 0, lockUntil = Some 900000 \<rparr>"
  let ?la = "[''prof@x.edu'' \<mapsto> ?r]"
  have h1: "?la ''prof@x.edu'' = Some ?r" by simp
  have h2: "lockUntil ?r = Some 900000" by simp
  have h3: "(900000::int) \<noteq> 0" by simp
  show ?thesis
    using isAccountLocked_expiry [where la = ?la and r = ?r, OF h1 h2 h3, where now = 900000 and ?now2.0 = 900000]
      isAccountLocked_expiry [where la = ?la and r = ?r, OF h1 h2 h3, where now = 1000 and ?now2.0 = 1000]
    by (simp add: ceil_div_def)
qed

subsection \<open>The lock test inside the tracker\<close>

text \<open>
  Claim C8 says the tracker follows the ordinary failure rule on a locked identity.
  It does not. Five failed calls under the shipped configuration, the last at 5000, lock
  the identity until 905000. A failed call at 6000 then returns the lock result with
  899 seconds and leaves the counter at 0, where the failure rule of the specification
  returns unlocked with four attempts remaining and stores the counter 1.
\<close>

theorem recordAttempt_no_lock_check_counterexample:
  "fst (failed_attempts default_config Map.empty ''prof@x.edu'' [1000, 2000, 3000, 4000, 5000]) =
     [''prof@x.edu'' \<mapsto> \<lparr> attempts = 0, lockUntil = Some 905000 \<rparr>]
   \<and> trackLoginAttempt default_config 6000
       [''prof@x.edu'' \<mapsto> \<lparr> attempts = 0, lockUntil = Some 905000 \<rparr>] ''prof@x.edu'' False =
     ([''prof@x.edu'' \<mapsto> \<lparr> attempts = 0, lockUntil = Some 905000 \<rparr>],
      Locked 899 (Try_again_in 15))
   \<and> recordAttempt_failure_spec default_config 6000
       [''prof@x.edu'' \<mapsto> \<lparr> attempts = 0, lockUntil = Some 905000 \<rparr>] ''prof@x.edu'' =
     ([''prof@x.edu'' \<mapsto> \<lparr> attempts = 1, lockUntil = Some 905000 \<rparr>], Unlocked (Some 4))"
  by (simp add: trackLoginAttempt_def recordAttempt_failure_spec_def default_config_def Let_def
      lock_active_def locked_result_def ceil_div_def)

lemma login_locked:
  assumes "la email = Some r" and "lockUntil r = Some t" and "t \<noteq> 0" and "now < t"
  shows "login ext cfg now now2 now3 (la, db) email password =
     ((la, db), account_locked \<lceil>real_of_int (t - now2) / 1000\<rceil>
                  (Try_again_in (ceil_div (ceil_div (t - now2) 1000) 60)))"
  using assms by (simp add: login_def isAccountLocked_def locked_result_ceiling)

text \<open>
  Claim C8 as the code has it. The tracker tests the lock itself. When the record of
  the identity has a \<open>lockUntil\<close> that is neither \<open>null\<close> nor zero and lies in the
  future, a call with \<open>success = false\<close> returns locked with
  \<open>remainingSeconds = ceil((lockUntil - now) / 1000)\<close> and changes nothing in the map
  (no increment); and the login handler, which asks \<open>isAccountLocked\<close> before it looks
  up the user or tests the password, answers such a request 423 \<open>ACCOUNT_LOCKED\<close>
  whatever the password is and changes neither the map nor the store, so the tracker is
  not called. In every other case (no record, a \<open>lockUntil\<close> that is \<open>null\<close> or zero, a
  \<open>lockUntil\<close> that has passed) the failed call follows the ordinary failure rule.
\<close>

theorem trackLoginAttempt_lock_check:
  "(la email = Some r \<and> lockUntil r = Some t \<and> t \<noteq> 0 \<and> now < t \<longrightarrow>
      trackLoginAttempt cfg now la email False =
        (la, Locked \<lceil>real_of_int (t - now) / 1000\<rceil>
               (Try_again_in (ceil_div (ceil_div (t - now) 1000) 60)))
      \<and> login ext cfg now now2 now3 (la, db) email password =
          ((la, db), account_locked \<lceil>real_of_int (t - now2) / 1000\<rceil>
                       (Try_again_in (ceil_div (ceil_div (t - now2) 1000) 60))))
   \<and> (\<not> (\<exists>r' t'. la email = Some r' \<and> lockUntil r' = Some t' \<and> t' \<noteq> 0 \<and> now < t') \<longrightarrow>
      trackLoginAttempt cfg now la email False = recordAttempt_failure_spec cfg now la email)"
proof -
  have locked: "trackLoginAttempt cfg now la email False =
        (la, Locked \<lceil>real_of_int (t - now) / 1000\<rceil>
               (Try_again_in (ceil_div (ceil_div (t - now) 1000) 60)))"
    if "la email = Some r" "lockUntil r = Some t" "t \<noteq> 0" "now < t"
    using that by (simp add: trackLoginAttempt_failure_locked locked_result_ceiling)
  have ordinary: "trackLoginAttempt cfg now la email False =
      recordAttempt_failure_spec cfg now la email"
    if "\<not> (\<exists>r' t'. la email = Some r' \<and> lockUntil r' = Some t' \<and> t' \<noteq> 0 \<and> now < t')"
    using that
    by (intro recordAttempt_failure_spec_eq)
       (auto simp: lock_active_def split: option.splits)
  show ?thesis
    using locked ordinary login_locked [of la email r t now ext cfg now2 now3 db password]
    by blast
qed

theorem trackLoginAttempt_lock_check_witness:
  "trackLoginAttempt default_config 6000
       [''prof@x.edu'' \<mapsto> \<lparr> attempts = 0, lockUntil = Some 905000 \<rparr>] ''prof@x.edu'' False =
     ([''prof@x.edu'' \<mapsto> \<lparr> attempts = 0, lockUntil = Some 905000 \<rparr>],
      Locked 899 (Try_again_in 15))
   \<and> login sample_externals default_config 6000 6000 6000
       ([''prof@x.edu'' \<mapsto> \<lparr> attempts = 0, lockUntil = Some 905000 \<rparr>], sample_db)
       ''prof@x.edu'' ''right'' =
     (([''prof@x.edu'' \<mapsto> \<lparr> attempts = 0, lockUntil = Some 905000 \<rparr>], sample_db),
      account_locked 899 (Try_again_in 15))
   \<and> trackLoginAttempt default_config 905000
       [''prof@x.edu'' \<mapsto> \<lparr> attempts = 0, lockUntil = Some 905000 \<rparr>] ''prof@x.edu'' False =
     recordAttempt_failure_spec default_config 905000
       [''prof@x.edu'' \<mapsto> \<lparr> attempts = 0, lockUntil = Some 905000 \<rparr>] ''prof@x.edu''
   \<and> trackLoginAttempt default_config 6000 Map.empty ''prof@x.edu'' False =
     recordAttempt_failure_spec default_config 6000 Map.empty ''prof@x.edu''"
proof -
  let ?r = "\<lparr> attempts = 0, lockUntil = Some 905000 \<rparr>"
  let ?la = "[''prof@x.edu'' \<mapsto> ?r]"
  have h: "?la ''prof@x.edu'' = Some ?r \<and> lockUntil ?r = Some 905000
      \<and> (905000::int) \<noteq> 0 \<and> (6000::int) < 905000"
    by simp
  have passed: "\<not> (\<exists>r' t'. ?la ''prof@x.edu'' = Some r' \<and> lockUntil r' = Some t'
      \<and> t' \<noteq> 0 \<and> (905000::int) < t')"
    by simp
  have absent: "\<not> (\<exists>r' t'. (Map.empty :: login_attempts) ''prof@x.edu'' = Some r'
      \<and> lockUntil r' = Some t' \<and> t' \<noteq> 0 \<and> (6000::int) < t')"
    by simp
  have c1: "trackLoginAttempt default_config 6000 ?la ''prof@x.edu'' False =
      (?la, Locked \<lceil>real_of_int (905000 - 6000) / 1000\<rceil>
              (Try_again_in (ceil_div (ceil_div (905000 - 6000) 1000) 60)))
    \<and> login sample_externals default_config 6000 6000 6000 (?la, sample_db)
        ''prof@x.edu'' ''right'' =
      ((?la, sample_db), account_locked \<lceil>real_of_int (905000 - 6000) / 1000\<rceil>
              (Try_again_in (ceil_div (ceil_div (905000 - 6000) 1000) 60)))"
    using trackLoginAttempt_lock_check [where la = ?la and email = "''prof@x.edu''" and r = ?r
        and t = 905000 and now = 6000 and cfg = default_config and ext = sample_externals
        and ?now2.0 = 6000 and ?now3.0 = 6000 and db = sample_db and password = "''right''"] h
    by blast
  have c2: "trackLoginAttempt default_config 905000 ?la ''prof@x.edu'' False =
      recordAttempt_failure_spec default_config 905000 ?la ''prof@x.edu''"
    using trackLoginAttempt_lock_check [where la = ?la and email = "''prof@x.edu''"
        and now = 905000 and cfg = default_config] passed
    by blast
  have c3: "trackLoginAttempt default_config 6000 Map.empty ''prof@x.edu'' False =
      recordAttempt_failure_spec default_config 6000 Map.empty ''prof@x.edu''"
    using trackLoginAttempt_lock_check [where la = Map.empty and email = "''prof@x.edu''"
        and now = 6000 and cfg = default_config] absent
    by blast
  from c1 c2 c3 show ?thesis
    by (simp add: ceil_div_def)
qed

subsection \<open>The stored counter stays below the threshold\<close>

lemma attempts_in_range_track:
  assumes "attempts_in_range cfg la" and "1 \<le> maxLoginAttempts (security cfg)"
  shows "attempts_in_range cfg (fst (trackLoginAttempt cfg now la email success))"
  using assms
  by (auto simp: attempts_in_range_def trackLoginAttempt_def Let_def
      split: option.splits if_splits)

lemma attempts_in_range_isAccountLocked:
  assumes "attempts_in_range cfg la"
  shows "attempts_in_range cfg (fst (isAccountLocked now now2 la email))"
  using assms
  by (auto simp: attempts_in_range_def isAccountLocked_def split: option.splits if_splits)

lemma attempts_in_range_cleanup:
  assumes "attempts_in_range cfg la"
  shows "attempts_in_range cfg (cleanup_loginAttempts now la)"
  using assms
  by (auto simp: attempts_in_range_def cleanup_loginAttempts_def split: option.splits if_splits)

lemma attempts_in_range_step:
  assumes "attempts_in_range cfg la" and "1 \<le> maxLoginAttempts (security cfg)"
  shows "attempts_in_range cfg (guard_step cfg la c)"
  using assms
  by (cases c)
     (simp_all add: attempts_in_range_track attempts_in_range_isAccountLocked
        attempts_in_range_cleanup)

lemma attempts_in_range_foldl:
  assumes "1 \<le> maxLoginAttempts (security cfg)" and "attempts_in_range cfg la"
  shows "attempts_in_range cfg (foldl (guard_step cfg) la calls)"
  using assms(2)
  by (induction calls arbitrary: la) (simp_all add: attempts_in_range_step assms(1))

text \<open>
  Claim C10. With a threshold of at least one, after any sequence of calls of
  \<open>trackLoginAttempt\<close> and \<open>isAccountLocked\<close> (and of runs of the periodic cleanup) on
  the map that is empty when the module is loaded, every record in the map has
  \<open>0 \<le> attempts \<le> maxLoginAttempts - 1\<close>.
\<close>

theorem loginAttempts_counter_below_threshold:
  assumes "1 \<le> maxLoginAttempts (security cfg)"
  shows "attempts_in_range cfg (guard_run cfg calls Map.empty)"
  unfolding guard_run_def
  using assms by (intro attempts_in_range_foldl) (simp_all add: attempts_in_range_def)

theorem loginAttempts_counter_below_threshold_witness:
  "1 \<le> maxLoginAttempts (security default_config)
   \<and> attempts_in_range default_config
       (guard_run default_config
          [Track ''prof@x.edu'' False 10, Track ''prof@x.edu'' False 20,
           IsLocked ''prof@x.edu'' 25 25, Track ''prof@x.edu'' False 30,
           Track ''prof@x.edu'' False 40, Track ''prof@x.edu'' False 50,
           Track ''prof@x.edu'' False 60, Cleanup 70] Map.empty)
   \<and> guard_run default_config
          [Track ''prof@x.edu'' False 10, Track ''prof@x.edu'' False 20,
           IsLocked ''prof@x.edu'' 25 25, Track ''prof@x.edu'' False 30,
           Track ''prof@x.edu'' False 40, Track ''prof@x.edu'' False 50,
           Track ''prof@x.edu'' False 60, Cleanup 70] Map.empty ''prof@x.edu'' =
       Some \<lparr> attempts = 0, lockUntil = Some 900050 \<rparr>"
proof -
  have h: "1 \<le> maxLoginAttempts (security default_config)"
    by (simp add: default_config_def)
  let ?calls = "[Track ''prof@x.edu'' False 10, Track ''prof@x.edu'' False 20,
           IsLocked ''prof@x.edu'' 25 25, Track ''prof@x.edu'' False 30,
           Track ''prof@x.edu'' False 40, Track ''prof@x.edu'' False 50,
           Track ''prof@x.edu'' False 60, Cleanup 70]"
  have inv: "attempts_in_range default_config (guard_run default_config ?calls Map.empty)"
    by (rule loginAttempts_counter_below_threshold [OF h])
  have val: "guard_run default_config ?calls Map.empty ''prof@x.edu'' =
      Some \<lparr> attempts = 0, lockUntil = Some 900050 \<rparr>"
    by (simp add: guard_run_def trackLoginAttempt_def isAccountLocked_def
        cleanup_loginAttempts_def default_config_def Let_def lock_active_def)
  from h inv val show ?thesis by blast
qed

section \<open>Properties of the rate limiter\<close>

lemma rateLimit_fresh:
  assumes "enableRateLimiting (features cfg)"
    and "store (client_key req) = None \<or> (\<exists>r. store (client_key req) = Some r \<and> resetTime r < now)"
  shows "rateLimit cfg m w now store req =
     (store(client_key req \<mapsto> \<lparr> count = 1, resetTime = now + w \<rparr>), Next req)"
  using assms by (auto simp: rateLimit_def Let_def)

lemma rateLimit_in_window:
  assumes "enableRateLimiting (features cfg)"
    and "store (client_key req) = Some \<lparr> count = c, resetTime = R \<rparr>"
    and "now \<le> R"
  shows "rateLimit cfg m w now store req =
     (if m \<le> c then (store, Reply (too_many_requests (ceil_div (R - now) 1000)))
      else (store(client_key req \<mapsto> \<lparr> count = c + 1, resetTime = R \<rparr>), Next req))"
  using assms by (simp add: rateLimit_def Let_def)

lemma map_enumerate_full:
  "m \<le> int n \<Longrightarrow>
     map (\<lambda>(i, t). if int i < m then a else b t) (enumerate n ts) = map b ts"
  by (induction ts arbitrary: n) simp_all

lemma rate_requests_in_window:
  assumes "enableRateLimiting (features cfg)"
    and "store (client_key req) = Some \<lparr> count = int c, resetTime = R \<rparr>"
    and "\<forall>t \<in> set ts. t \<le> R"
    and "int c \<le> m"
  shows "rate_requests cfg m w store req ts =
     (store(client_key req \<mapsto> \<lparr> count = min (int c + int (length ts)) m, resetTime = R \<rparr>),
      map (\<lambda>(i, t). if int i < m then Next req
                     else Reply (too_many_requests (ceil_div (R - t) 1000)))
        (enumerate c ts))"
  using assms(2-)
proof (induction ts arbitrary: c store)
  case Nil
  then show ?case by (simp add: map_upd_triv)
next
  case (Cons t ts)
  show ?case
  proof (cases "int c < m")
    case True
    let ?s1 = "store(client_key req \<mapsto> \<lparr> count = int (Suc c), resetTime = R \<rparr>)"
    have step: "rateLimit cfg m w t store req = (?s1, Next req)"
      using Cons.prems True assms(1) by (simp add: rateLimit_in_window add.commute)
    have "rate_requests cfg m w ?s1 req ts =
        (?s1(client_key req \<mapsto> \<lparr> count = min (int (Suc c) + int (length ts)) m, resetTime = R \<rparr>),
         map (\<lambda>(i, t). if int i < m then Next req
                        else Reply (too_many_requests (ceil_div (R - t) 1000)))
           (enumerate (Suc c) ts))"
      using Cons.prems True by (intro Cons.IH) simp_all
    then have rest: "rate_requests cfg m w ?s1 req ts =
        (store(client_key req \<mapsto> \<lparr> count = min (int c + int (length (t # ts))) m, resetTime = R \<rparr>),
         map (\<lambda>(i, t). if int i < m then Next req
                        else Reply (too_many_requests (ceil_div (R - t) 1000)))
           (enumerate (Suc c) ts))"
      by (simp add: ac_simps)
    show ?thesis
      using True
      by (simp only: rate_requests.simps step rest Let_def prod.case enumerate_simps list.map if_True)
  next
    case False
    with Cons.prems have cm: "int c = m" by simp
    have step: "rateLimit cfg m w t store req =
        (store, Reply (too_many_requests (ceil_div (R - t) 1000)))"
      using Cons.prems cm assms(1) by (simp add: rateLimit_in_window)
    have full: "\<And>i. c \<le> i \<Longrightarrow> \<not> int i < m" using cm by simp
    have "rate_requests cfg m w store req ts =
        (store(client_key req \<mapsto> \<lparr> count = min (int c + int (length ts)) m, resetTime = R \<rparr>),
         map (\<lambda>(i, t). if int i < m then Next req
                        else Reply (too_many_requests (ceil_div (R - t) 1000)))
           (enumerate c ts))"
      using Cons.prems by (intro Cons.IH) simp_all
    moreover have "map (\<lambda>(i, t). if int i < m then Next req
                        else Reply (too_many_requests (ceil_div (R - t) 1000))) (enumerate c ts)
       = map (\<lambda>(i, t). if int i < m then Next req
                        else Reply (too_many_requests (ceil_div (R - t) 1000))) (enumerate (Suc c) ts)"
      using cm by (simp add: map_enumerate_full)
    moreover have "min (int c + int (length ts)) m = min (int c + int (length (t # ts))) m"
      using cm by simp
    ultimately have rest: "rate_requests cfg m w store req ts =
        (store(client_key req \<mapsto> \<lparr> count = min (int c + int (length (t # ts))) m, resetTime = R \<rparr>),
         map (\<lambda>(i, t). if int i < m then Next req
                        else Reply (too_many_requests (ceil_div (R - t) 1000)))
           (enumerate (Suc c) ts))"
      by simp
    show ?thesis
      using False
      by (simp only: rate_requests.simps step rest Let_def prod.case enumerate_simps list.map if_False)
  qed
qed

subsection \<open>One window of one limiter\<close>

text \<open>
  What one limiter does when it is the only one that writes the store, for consecutive
  requests of one client and \<open>maxRequests \<ge> 1\<close>. The first request finds no record, or
  a record whose \<open>resetTime\<close> has passed: it starts a fresh window and is allowed. Of
  the requests that follow inside the window (\<open>t < resetTime\<close>), request number \<open>i\<close>,
  counted from 0, is allowed when \<open>i < maxRequests\<close> and is otherwise rejected with
  \<open>retryAfter = ceil((resetTime - t) / 1000) > 0\<close>. The stored count is the number of
  requests capped at \<open>maxRequests\<close>.
\<close>

lemma rateLimit_alone:
  assumes "enableRateLimiting (features cfg)"
    and "1 \<le> maxRequests"
    and "store (client_key req) = None
         \<or> (\<exists>r. store (client_key req) = Some r \<and> resetTime r < t0)"
    and "\<forall>t \<in> set ts. t < t0 + windowMs"
  shows "fst (rate_requests cfg maxRequests windowMs store req (t0 # ts)) =
           store(client_key req \<mapsto>
             \<lparr> count = min (1 + int (length ts)) maxRequests, resetTime = t0 + windowMs \<rparr>)
       \<and> min (1 + int (length ts)) maxRequests \<le> maxRequests
       \<and> length (snd (rate_requests cfg maxRequests windowMs store req (t0 # ts))) = Suc (length ts)
       \<and> (\<forall>i \<le> length ts. int i < maxRequests \<longrightarrow>
            snd (rate_requests cfg maxRequests windowMs store req (t0 # ts)) ! i = Next req)
       \<and> (\<forall>i \<le> length ts. maxRequests \<le> int i \<longrightarrow>
            0 < \<lceil>real_of_int (t0 + windowMs - (t0 # ts) ! i) / 1000\<rceil>
            \<and> snd (rate_requests cfg maxRequests windowMs store req (t0 # ts)) ! i =
                Reply (too_many_requests \<lceil>real_of_int (t0 + windowMs - (t0 # ts) ! i) / 1000\<rceil>))"
proof -
  let ?key = "client_key req"
  let ?R = "t0 + windowMs"
  let ?f = "\<lambda>(i, t). if int i < maxRequests then Next req
                       else Reply (too_many_requests (ceil_div (?R - t) 1000))"
  let ?s1 = "store(?key \<mapsto> \<lparr> count = 1, resetTime = ?R \<rparr>)"
  have first: "rateLimit cfg maxRequests windowMs t0 store req = (?s1, Next req)"
    using assms(1,3) by (rule rateLimit_fresh)
  have "rate_requests cfg maxRequests windowMs ?s1 req ts =
      (?s1(?key \<mapsto> \<lparr> count = min (int 1 + int (length ts)) maxRequests, resetTime = ?R \<rparr>),
       map ?f (enumerate 1 ts))"
    using assms(1,2,4) by (intro rate_requests_in_window) auto
  then have rest: "rate_requests cfg maxRequests windowMs ?s1 req ts =
      (store(?key \<mapsto> \<lparr> count = min (1 + int (length ts)) maxRequests, resetTime = ?R \<rparr>),
       map ?f (enumerate 1 ts))"
    by simp
  have run: "rate_requests cfg maxRequests windowMs store req (t0 # ts) =
      (store(?key \<mapsto> \<lparr> count = min (1 + int (length ts)) maxRequests, resetTime = ?R \<rparr>),
       map ?f (enumerate 0 (t0 # ts)))"
    using assms(2)
    by (simp only: rate_requests.simps first rest Let_def prod.case enumerate_simps list.map)
       simp
  have nth: "snd (rate_requests cfg maxRequests windowMs store req (t0 # ts)) ! i =
      (if int i < maxRequests then Next req
       else Reply (too_many_requests (ceil_div (?R - (t0 # ts) ! i) 1000)))"
    if "i \<le> length ts" for i
  proof -
    have "i < length (t0 # ts)" using that by simp
    then have "enumerate 0 (t0 # ts) ! i = (i, (t0 # ts) ! i)"
      by (simp only: nth_enumerate_eq) simp
    moreover have "i < length (enumerate 0 (t0 # ts))" using that by simp
    ultimately show ?thesis
      unfolding run snd_conv by (simp only: nth_map) simp
  qed
  have pos: "0 < \<lceil>real_of_int (?R - (t0 # ts) ! i) / 1000\<rceil>"
    if "i \<le> length ts" and "maxRequests \<le> int i" for i
  proof -
    from that(2) assms(2) obtain j where i: "i = Suc j" by (cases i) auto
    with that(1) have "ts ! j \<in> set ts" by simp
    with assms(4) have "ts ! j < ?R" by blast
    then show ?thesis by (simp add: i)
  qed
  have store_after: "fst (rate_requests cfg maxRequests windowMs store req (t0 # ts)) =
      store(?key \<mapsto> \<lparr> count = min (1 + int (length ts)) maxRequests, resetTime = ?R \<rparr>)"
    by (simp only: run fst_conv)
  have len: "length (snd (rate_requests cfg maxRequests windowMs store req (t0 # ts))) =
      Suc (length ts)"
    by (simp only: run snd_conv length_map length_enumerate) simp
  show ?thesis
    using nth pos store_after len
    by (simp add: ceil_div_ceiling del: rate_requests.simps)
qed

lemma rateLimit_alone_example:
  "enableRateLimiting (features default_config)
   \<and> (1::int) \<le> 3
   \<and> (Map.empty :: rate_store) (client_key client) = None
   \<and> fst (rate_requests default_config 3 1000 Map.empty client (0 # [10, 20, 30])) =
        [client_key client \<mapsto> \<lparr> count = 3, resetTime = 1000 \<rparr>]
   \<and> snd (rate_requests default_config 3 1000 Map.empty client (0 # [10, 20, 30])) =
        [Next client, Next client, Next client, Reply (too_many_requests 1)]"
proof -
  have h1: "enableRateLimiting (features default_config)"
    by (simp add: default_config_def)
  have h2: "(1::int) \<le> 3" by simp
  have h3: "(Map.empty :: rate_store) (client_key client) = None
         \<or> (\<exists>r. (Map.empty :: rate_store) (client_key client) = Some r \<and> resetTime r < 0)"
    by simp
  have h4: "\<forall>t \<in> set [10, 20, 30]. t < (0::int) + 1000" by simp
  have "fst (rate_requests default_config 3 1000 Map.empty client (0 # [10, 20, 30])) =
        [client_key client \<mapsto> \<lparr> count = 3, resetTime = 1000 \<rparr>]"
    using rateLimit_alone [OF h1 h2 h3 h4] by simp
  moreover have "snd (rate_requests default_config 3 1000 Map.empty client (0 # [10, 20, 30])) =
        [Next client, Next client, Next client, Reply (too_many_requests 1)]"
    by (simp add: rateLimit_def default_config_def Let_def ceil_div_def)
  ultimately show ?thesis
    using h1 by simp
qed

subsection \<open>Limiters share the store\<close>

text \<open>
  Claim C2 says that every limiter keeps a record map of its own. In the code all
  limiters read and write the one \<open>rateLimitStore\<close>. Under the default
  configuration, for one client: the record left by the global limiter (count 1,
  window of 15 minutes) is the record the login limiter then finds and increments,
  where on a map of its own the login limiter would have stored count 1 and a window of
  one hour; and of three login requests within two seconds, each passing the global
  limiter and then the login limiter, the third is rejected by the login limiter, whose
  limit is five requests an hour.
\<close>

theorem rateLimit_instances_share_store:
  "fst (api_limiter default_config 0 Map.empty client) (client_key client) =
     Some \<lparr> count = 1, resetTime = 900000 \<rparr>
   \<and> fst (login_limiter default_config 0 Map.empty client) (client_key client) =
     Some \<lparr> count = 1, resetTime = 3600000 \<rparr>
   \<and> fst (login_limiter default_config 0
            (fst (api_limiter default_config 0 Map.empty client)) client) (client_key client) =
     Some \<lparr> count = 2, resetTime = 900000 \<rparr>
   \<and> snd (login_requests default_config Map.empty client [0, 1000, 2000]) =
     [Next client, Next client, Reply (too_many_requests 898)]"
  by (simp add: api_limiter_def login_limiter_def login_limiters_def rateLimit_def
      default_config_def Let_def ceil_div_def)

subsection \<open>A window behind the global limiter\<close>

text \<open>
  Claim C4 at the login route of the server, under the shipped configuration. The login
  limiter is \<open>rateLimit(5, 1 hour)\<close> and stands behind the global limiter
  \<open>rateLimit(100, 15 minutes)\<close>, which writes the same record. One client sends four
  login requests within three seconds. The login limiter allows the first two and
  rejects the third and the fourth, although its maximum is five; the record it reads
  then holds count 6, above its maximum, and the window of the global limiter. Alone on
  the store the same limiter allows all four.
\<close>

theorem login_limiter_window_exceeded:
  "authMaxRequests (rateLimit_cfg default_config) = 5
   \<and> snd (login_requests default_config Map.empty client [0, 1000, 2000, 3000]) =
       [Next client, Next client,
        Reply (too_many_requests 898), Reply (too_many_requests 897)]
   \<and> fst (login_requests default_config Map.empty client [0, 1000, 2000, 3000])
         (client_key client) =
       Some \<lparr> count = 6, resetTime = 900000 \<rparr>
   \<and> snd (rate_requests default_config 5 3600000 Map.empty client [0, 1000, 2000, 3000]) =
       [Next client, Next client, Next client, Next client]"
  by (simp add: api_limiter_def login_limiter_def login_limiters_def rateLimit_def
      default_config_def Let_def ceil_div_def)

section \<open>Properties of the access control middleware\<close>

lemma split_on_head:
  "\<exists>ws. split_on c xs = takeWhile (\<lambda>x. x \<noteq> c) xs # ws"
  by (induction xs) (auto split: list.splits)

lemma bearer_token_Bearer:
  assumes "startsWith h ''Bearer ''"
  shows "bearer_token h = Some (takeWhile (\<lambda>x. x \<noteq> CHR '' '') (drop 7 h))"
proof -
  have len: "length ''Bearer '' = 7" by simp
  from assms have "take 7 h = ''Bearer ''"
    unfolding startsWith_def len .
  then have "take 7 h @ drop 7 h = ''Bearer '' @ drop 7 h"
    by (simp only:)
  then have h: "h = ''Bearer '' @ drop 7 h"
    by (simp only: append_take_drop_id)
  obtain ws where ws: "split_on CHR '' '' (drop 7 h) =
      takeWhile (\<lambda>x. x \<noteq> CHR '' '') (drop 7 h) # ws"
    using split_on_head by blast
  have "split_on CHR '' '' (''Bearer '' @ drop 7 h) =
      ''Bearer'' # takeWhile (\<lambda>x. x \<noteq> CHR '' '') (drop 7 h) # ws"
    by (simp add: ws)
  with h have "split_on CHR '' '' h =
      ''Bearer'' # takeWhile (\<lambda>x. x \<noteq> CHR '' '') (drop 7 h) # ws"
    by simp
  then show ?thesis
    by (simp add: bearer_token_def)
qed

lemma jwt_verify_cases:
  "jwt_verify ext now tok key options =
     (if \<not> (\<exists>j. well_signed ext key tok j) then Inl JsonWebTokenError
      else let j = the (jwt_decode ext tok)
           in if expired now j then Inl TokenExpiredError
              else case options of
                     None \<Rightarrow> Inr (jwt_claims j)
                   | Some (iss, aud) \<Rightarrow>
                       if c_iss (jwt_claims j) = Some iss \<and> c_aud (jwt_claims j) = Some aud
                       then Inr (jwt_claims j) else Inl JsonWebTokenError)"
  by (auto simp: jwt_verify_def well_signed_def expired_def Let_def
      split: option.splits prod.splits)

lemma jwt_verify_unsigned:
  assumes "\<not> (\<exists>j. well_signed ext key tok j)"
  shows "jwt_verify ext now tok key options = Inl JsonWebTokenError"
  using assms by (simp add: jwt_verify_cases)

lemma jwt_verify_expired:
  assumes "well_signed ext key tok j" and "expired now j"
  shows "jwt_verify ext now tok key options = Inl TokenExpiredError"
  using assms by (auto simp: jwt_verify_cases) (simp add: well_signed_def)

lemma jwt_verify_plain:
  assumes "well_signed ext key tok j" and "\<not> expired now j"
  shows "jwt_verify ext now tok key None = Inr (jwt_claims j)"
  using assms by (auto simp: jwt_verify_cases) (simp_all add: well_signed_def)

lemma jwt_verify_issuer:
  assumes "well_signed ext (secret (jwt cfg)) tok j" and "\<not> expired now j"
  shows "jwt_verify ext now tok (secret (jwt cfg)) (Some (issuer (jwt cfg), audience (jwt cfg))) =
     (if issued_for cfg j then Inr (jwt_claims j) else Inl JsonWebTokenError)"
  using assms by (auto simp: jwt_verify_cases issued_for_def) (simp_all add: well_signed_def)

lemma authenticate_Bearer:
  assumes "req_authorization req = Some h" and "startsWith h ''Bearer ''"
    and "tok = takeWhile (\<lambda>x. x \<noteq> CHR '' '') (drop 7 h)"
  shows "authenticate ext cfg now req =
     (case jwt_verify ext now tok (secret (jwt cfg)) (Some (issuer (jwt cfg), audience (jwt cfg))) of
        Inr decoded \<Rightarrow> Next (req \<lparr> req_user := Some decoded, req_token := Some tok \<rparr>)
      | Inl TokenExpiredError \<Rightarrow> Reply (failure 401 ''Token expired'' ''TOKEN_EXPIRED'')
      | Inl JsonWebTokenError \<Rightarrow> Reply (failure 401 ''Invalid token'' ''INVALID_TOKEN''))"
proof -
  from assms(2) have "h \<noteq> []" by (auto simp: startsWith_def)
  with assms(1,2) show ?thesis
    unfolding assms(3) by (simp add: authenticate_def bearer_token_Bearer)
qed

lemma optionalAuth_Bearer:
  assumes "req_authorization req = Some h" and "startsWith h ''Bearer ''"
    and "tok = takeWhile (\<lambda>x. x \<noteq> CHR '' '') (drop 7 h)"
  shows "optionalAuth ext cfg now req =
     (case jwt_verify ext now tok (secret (jwt cfg)) None of
        Inr decoded \<Rightarrow> Next (req \<lparr> req_user := Some decoded, req_token := Some tok \<rparr>)
      | Inl error \<Rightarrow> Next req)"
proof -
  from assms(2) have "h \<noteq> []" by (auto simp: startsWith_def)
  with assms(1,2) show ?thesis
    unfolding assms(3) by (simp add: optionalAuth_def bearer_token_Bearer)
qed

subsection \<open>Outcomes of the required gate\<close>

text \<open>
  Claim C6. The conditions below are exclusive and cover every request, and each fixes
  the outcome of \<open>authenticate\<close>. No \<open>authorization\<close> header, or one that does not
  start with \<open>'Bearer '\<close>: 401 \<open>MISSING_TOKEN\<close>. A bearer header whose token is not
  well signed for the access secret: 401 \<open>INVALID_TOKEN\<close>. A well signed token that is
  expired: 401 \<open>TOKEN_EXPIRED\<close>. A well signed, unexpired token with another issuer
  or audience: 401 \<open>INVALID_TOKEN\<close>. A well signed, unexpired token of the configured
  issuer and audience: the claims are attached to the request, and \<open>authorize\<close>, which
  runs next, answers 403 \<open>FORBIDDEN\<close> when the role of the claims is not among the
  allowed roles and hands the request on otherwise. The token of a bearer header is what
  stands between \<open>'Bearer '\<close> and the next space; when nothing stands there the token
  is empty, which is not well signed.
\<close>

theorem access_gate_classification:
  "(req_authorization req = None \<longrightarrow>
      authenticate ext cfg now req = Reply (failure 401 ''Access token required'' ''MISSING_TOKEN''))
   \<and> (req_authorization req = Some h \<and> \<not> startsWith h ''Bearer '' \<longrightarrow>
      authenticate ext cfg now req = Reply (failure 401 ''Access token required'' ''MISSING_TOKEN''))
   \<and> (req_authorization req = Some h \<and> startsWith h ''Bearer ''
        \<and> tok = takeWhile (\<lambda>x. x \<noteq> CHR '' '') (drop 7 h) \<longrightarrow>
        ((\<forall>j'. \<not> well_signed ext (secret (jwt cfg)) tok j') \<longrightarrow>
           authenticate ext cfg now req = Reply (failure 401 ''Invalid token'' ''INVALID_TOKEN''))
      \<and> (well_signed ext (secret (jwt cfg)) tok j \<and> expired now j \<longrightarrow>
           authenticate ext cfg now req = Reply (failure 401 ''Token expired'' ''TOKEN_EXPIRED''))
      \<and> (well_signed ext (secret (jwt cfg)) tok j \<and> \<not> expired now j \<and> \<not> issued_for cfg j \<longrightarrow>
           authenticate ext cfg now req = Reply (failure 401 ''Invalid token'' ''INVALID_TOKEN''))
      \<and> (well_signed ext (secret (jwt cfg)) tok j \<and> \<not> expired now j \<and> issued_for cfg j \<longrightarrow>
           authenticate ext cfg now req =
             Next (req \<lparr> req_user := Some (jwt_claims j), req_token := Some tok \<rparr>)
           \<and> protected_route ext cfg allowedRoles now req =
               (if array_includes allowedRoles (c_role (jwt_claims j))
                then Next (req \<lparr> req_user := Some (jwt_claims j), req_token := Some tok \<rparr>)
                else Reply (failure 403 ''Insufficient permissions'' ''FORBIDDEN''))))"
proof -
  have missing1: "authenticate ext cfg now req =
      Reply (failure 401 ''Access token required'' ''MISSING_TOKEN'')"
    if "req_authorization req = None"
    using that by (simp add: authenticate_def)
  have missing2: "authenticate ext cfg now req =
      Reply (failure 401 ''Access token required'' ''MISSING_TOKEN'')"
    if "req_authorization req = Some h" and "\<not> startsWith h ''Bearer ''"
    using that by (simp add: authenticate_def)
  have present: "
        ((\<forall>j'. \<not> well_signed ext (secret (jwt cfg)) tok j') \<longrightarrow>
           authenticate ext cfg now req = Reply (failure 401 ''Invalid token'' ''INVALID_TOKEN''))
      \<and> (well_signed ext (secret (jwt cfg)) tok j \<and> expired now j \<longrightarrow>
           authenticate ext cfg now req = Reply (failure 401 ''Token expired'' ''TOKEN_EXPIRED''))
      \<and> (well_signed ext (secret (jwt cfg)) tok j \<and> \<not> expired now j \<and> \<not> issued_for cfg j \<longrightarrow>
           authenticate ext cfg now req = Reply (failure 401 ''Invalid token'' ''INVALID_TOKEN''))
      \<and> (well_signed ext (secret (jwt cfg)) tok j \<and> \<not> expired now j \<and> issued_for cfg j \<longrightarrow>
           authenticate ext cfg now req =
             Next (req \<lparr> req_user := Some (jwt_claims j), req_token := Some tok \<rparr>)
           \<and> protected_route ext cfg allowedRoles now req =
               (if array_includes allowedRoles (c_role (jwt_claims j))
                then Next (req \<lparr> req_user := Some (jwt_claims j), req_token := Some tok \<rparr>)
                else Reply (failure 403 ''Insufficient permissions'' ''FORBIDDEN'')))"
    if h: "req_authorization req = Some h" "startsWith h ''Bearer ''"
      "tok = takeWhile (\<lambda>x. x \<noteq> CHR '' '') (drop 7 h)"
  proof -
    note a = authenticate_Bearer [OF h, of ext cfg now]
    have c1: "authenticate ext cfg now req = Reply (failure 401 ''Invalid token'' ''INVALID_TOKEN'')"
      if "\<forall>j'. \<not> well_signed ext (secret (jwt cfg)) tok j'"
      using that by (simp add: a jwt_verify_unsigned)
    have c2: "authenticate ext cfg now req = Reply (failure 401 ''Token expired'' ''TOKEN_EXPIRED'')"
      if "well_signed ext (secret (jwt cfg)) tok j" "expired now j"
      using that by (simp add: a jwt_verify_expired)
    have c3: "authenticate ext cfg now req = Reply (failure 401 ''Invalid token'' ''INVALID_TOKEN'')"
      if "well_signed ext (secret (jwt cfg)) tok j" "\<not> expired now j" "\<not> issued_for cfg j"
      using that by (simp add: a jwt_verify_issuer)
    have c4: "authenticate ext cfg now req =
        Next (req \<lparr> req_user := Some (jwt_claims j), req_token := Some tok \<rparr>)"
      if "well_signed ext (secret (jwt cfg)) tok j" "\<not> expired now j" "issued_for cfg j"
      using that by (simp add: a jwt_verify_issuer)
    have c5: "protected_route ext cfg allowedRoles now req =
        (if array_includes allowedRoles (c_role (jwt_claims j))
         then Next (req \<lparr> req_user := Some (jwt_claims j), req_token := Some tok \<rparr>)
         else Reply (failure 403 ''Insufficient permissions'' ''FORBIDDEN''))"
      if "well_signed ext (secret (jwt cfg)) tok j" "\<not> expired now j" "issued_for cfg j"
      by (simp add: protected_route_def c4 [OF that] authorize_def)
    show ?thesis
      using c1 c2 c3 c4 c5 by blast
  qed
  show ?thesis
    using missing1 missing2 present by blast
qed

theorem access_gate_classification_witness:
  "authenticate sample_externals default_config 5000 client =
     Reply (failure 401 ''Access token required'' ''MISSING_TOKEN'')
   \<and> authenticate sample_externals default_config 900000 (bearer_request ''aaa'') =
     Reply (failure 401 ''Token expired'' ''TOKEN_EXPIRED'')
   \<and> authenticate sample_externals default_config 5000 (bearer_request ''fff'') =
     Reply (failure 401 ''Invalid token'' ''INVALID_TOKEN'')
   \<and> authenticate sample_externals default_config 5000 (bearer_request ''aaa'') =
     Next ((bearer_request ''aaa'')
            \<lparr> req_user := Some (jwt_claims professor_access), req_token := Some ''aaa'' \<rparr>)
   \<and> protected_route sample_externals default_config [''admin''] 5000 (bearer_request ''aaa'') =
     Reply (failure 403 ''Insufficient permissions'' ''FORBIDDEN'')
   \<and> protected_route sample_externals default_config [''professor''] 5000 (bearer_request ''aaa'') =
     Next ((bearer_request ''aaa'')
            \<lparr> req_user := Some (jwt_claims professor_access), req_token := Some ''aaa'' \<rparr>)"
proof -
  let ?key = "secret (jwt default_config)"
  have none: "req_authorization client = None"
    by (simp add: client_def)
  have hdr: "req_authorization (bearer_request t) = Some (''Bearer '' @ t)" for t
    by (simp add: bearer_request_def)
  have sw: "startsWith (''Bearer '' @ t) ''Bearer ''" for t
    by (simp add: startsWith_def)
  have ta: "''aaa'' = takeWhile (\<lambda>x. x \<noteq> CHR '' '') (drop 7 (''Bearer '' @ ''aaa''))" by simp
  have tf: "''fff'' = takeWhile (\<lambda>x. x \<noteq> CHR '' '') (drop 7 (''Bearer '' @ ''fff''))" by simp
  have wa: "well_signed sample_externals ?key ''aaa'' professor_access"
    by (simp add: well_signed_def sample_externals_def professor_access_def)
  have wf: "well_signed sample_externals ?key ''fff'' foreign_token"
    by (simp add: well_signed_def sample_externals_def foreign_token_def)
  have ea: "\<not> expired 5000 professor_access" "expired 900000 professor_access"
    by (simp_all add: expired_def professor_access_def)
  have ef: "\<not> expired 5000 foreign_token"
    by (simp add: expired_def foreign_token_def)
  have ia: "issued_for default_config professor_access"
    by (simp add: issued_for_def professor_access_def default_config_def)
  have "if": "\<not> issued_for default_config foreign_token"
    by (simp add: issued_for_def foreign_token_def)
  have roles: "\<not> array_includes [''admin''] (c_role (jwt_claims professor_access))"
    "array_includes [''professor''] (c_role (jwt_claims professor_access))"
    by (simp_all add: array_includes_def professor_access_def)
  have c1: "authenticate sample_externals default_config 5000 client =
      Reply (failure 401 ''Access token required'' ''MISSING_TOKEN'')"
    using access_gate_classification [where req = client and now = 5000] none by blast
  have c2: "authenticate sample_externals default_config 900000 (bearer_request ''aaa'') =
      Reply (failure 401 ''Token expired'' ''TOKEN_EXPIRED'')"
    using access_gate_classification [where req = "bearer_request ''aaa''" and now = 900000
        and h = "''Bearer '' @ ''aaa''" and tok = "''aaa''" and j = professor_access
        and ext = sample_externals and cfg = default_config]
      hdr sw ta wa ea by blast
  have c3: "authenticate sample_externals default_config 5000 (bearer_request ''fff'') =
      Reply (failure 401 ''Invalid token'' ''INVALID_TOKEN'')"
    using access_gate_classification [where req = "bearer_request ''fff''" and now = 5000
        and h = "''Bearer '' @ ''fff''" and tok = "''fff''" and j = foreign_token
        and ext = sample_externals and cfg = default_config]
      hdr sw tf wf ef "if" by blast
  have c4: "authenticate sample_externals default_config 5000 (bearer_request ''aaa'') =
      Next ((bearer_request ''aaa'')
             \<lparr> req_user := Some (jwt_claims professor_access), req_token := Some ''aaa'' \<rparr>)"
    using access_gate_classification [where req = "bearer_request ''aaa''" and now = 5000
        and h = "''Bearer '' @ ''aaa''" and tok = "''aaa''" and j = professor_access
        and ext = sample_externals and cfg = default_config]
      hdr sw ta wa ea ia by blast
  have c5: "protected_route sample_externals default_config [''admin''] 5000 (bearer_request ''aaa'') =
      Reply (failure 403 ''Insufficient permissions'' ''FORBIDDEN'')"
    using access_gate_classification [where req = "bearer_request ''aaa''" and now = 5000
        and h = "''Bearer '' @ ''aaa''" and tok = "''aaa''" and j = professor_access
        and ext = sample_externals and cfg = default_config and allowedRoles = "[''admin'']"]
      hdr sw ta wa ea ia roles(1) by (simp del: append.simps)
  have c6: "protected_route sample_externals default_config [''professor''] 5000 (bearer_request ''aaa'') =
      Next ((bearer_request ''aaa'')
             \<lparr> req_user := Some (jwt_claims professor_access), req_token := Some ''aaa'' \<rparr>)"
    using access_gate_classification [where req = "bearer_request ''aaa''" and now = 5000
        and h = "''Bearer '' @ ''aaa''" and tok = "''aaa''" and j = professor_access
        and ext = sample_externals and cfg = default_config and allowedRoles = "[''professor'']"]
      hdr sw ta wa ea ia roles(2) by (simp del: append.simps)
  from c1 c2 c3 c4 c5 c6 show ?thesis by blast
qed

subsection \<open>The optional gate\<close>

text \<open>
  Claim C9. \<open>optionalAuth\<close> calls \<open>next\<close> on every request. It hands the request on
  unchanged when there is no bearer header, when the token is not well signed for the
  access secret, and when the token is well signed but expired. It attaches the claims
  of every token that is well signed for the access secret and unexpired, whatever its
  issuer and audience; when these are not the configured ones, \<open>authenticate\<close> rejects
  the same request with 401 \<open>INVALID_TOKEN\<close>. The witness has such a token, a token
  signed with another key and an expired token.
\<close>

theorem optionalAuth_weaker_verification:
  "(\<exists>req'. optionalAuth ext cfg now req = Next req')
   \<and> (req_authorization req = None \<longrightarrow> optionalAuth ext cfg now req = Next req)
   \<and> (req_authorization req = Some h \<and> \<not> startsWith h ''Bearer '' \<longrightarrow>
        optionalAuth ext cfg now req = Next req)
   \<and> (req_authorization req = Some h \<and> startsWith h ''Bearer ''
        \<and> tok = takeWhile (\<lambda>x. x \<noteq> CHR '' '') (drop 7 h) \<longrightarrow>
        ((\<forall>j'. \<not> well_signed ext (secret (jwt cfg)) tok j') \<longrightarrow>
           optionalAuth ext cfg now req = Next req)
      \<and> (well_signed ext (secret (jwt cfg)) tok j \<and> expired now j \<longrightarrow>
           optionalAuth ext cfg now req = Next req)
      \<and> (well_signed ext (secret (jwt cfg)) tok j \<and> \<not> expired now j \<longrightarrow>
           optionalAuth ext cfg now req =
             Next (req \<lparr> req_user := Some (jwt_claims j), req_token := Some tok \<rparr>)
           \<and> (\<not> issued_for cfg j \<longrightarrow>
                authenticate ext cfg now req =
                  Reply (failure 401 ''Invalid token'' ''INVALID_TOKEN''))))"
proof -
  have never: "\<exists>req'. optionalAuth ext cfg now req = Next req'"
    by (simp add: optionalAuth_def split: option.splits sum.splits)
  have none: "optionalAuth ext cfg now req = Next req"
    if "req_authorization req = None"
    using that by (simp add: optionalAuth_def)
  have other: "optionalAuth ext cfg now req = Next req"
    if "req_authorization req = Some h" "\<not> startsWith h ''Bearer ''"
    using that by (simp add: optionalAuth_def)
  have unsigned: "optionalAuth ext cfg now req = Next req"
    if "req_authorization req = Some h" "startsWith h ''Bearer ''"
      "tok = takeWhile (\<lambda>x. x \<noteq> CHR '' '') (drop 7 h)"
      "\<forall>j'. \<not> well_signed ext (secret (jwt cfg)) tok j'"
    using that(4) by (simp add: optionalAuth_Bearer [OF that(1-3)] jwt_verify_unsigned)
  have old: "optionalAuth ext cfg now req = Next req"
    if "req_authorization req = Some h" "startsWith h ''Bearer ''"
      "tok = takeWhile (\<lambda>x. x \<noteq> CHR '' '') (drop 7 h)"
      "well_signed ext (secret (jwt cfg)) tok j" "expired now j"
    using that(4,5) by (simp add: optionalAuth_Bearer [OF that(1-3)] jwt_verify_expired)
  have attach: "optionalAuth ext cfg now req =
      Next (req \<lparr> req_user := Some (jwt_claims j), req_token := Some tok \<rparr>)"
    if "req_authorization req = Some h" "startsWith h ''Bearer ''"
      "tok = takeWhile (\<lambda>x. x \<noteq> CHR '' '') (drop 7 h)"
      "well_signed ext (secret (jwt cfg)) tok j" "\<not> expired now j"
    using that by (simp add: optionalAuth_Bearer [OF that(1-3)] jwt_verify_plain)
  have reject: "authenticate ext cfg now req =
      Reply (failure 401 ''Invalid token'' ''INVALID_TOKEN'')"
    if "req_authorization req = Some h" "startsWith h ''Bearer ''"
      "tok = takeWhile (\<lambda>x. x \<noteq> CHR '' '') (drop 7 h)"
      "well_signed ext (secret (jwt cfg)) tok j" "\<not> expired now j" "\<not> issued_for cfg j"
    using that by (simp add: authenticate_Bearer [OF that(1-3)] jwt_verify_issuer)
  show ?thesis
    using never none other unsigned old attach reject by blast
qed

theorem optionalAuth_weaker_verification_witness:
  "well_signed sample_externals (secret (jwt default_config)) ''fff'' foreign_token
   \<and> \<not> expired 5000 foreign_token
   \<and> \<not> issued_for default_config foreign_token
   \<and> optionalAuth sample_externals default_config 5000 (bearer_request ''fff'') =
       Next ((bearer_request ''fff'')
              \<lparr> req_user := Some (jwt_claims foreign_token), req_token := Some ''fff'' \<rparr>)
   \<and> authenticate sample_externals default_config 5000 (bearer_request ''fff'') =
       Reply (failure 401 ''Invalid token'' ''INVALID_TOKEN'')
   \<and> jwt_decode sample_externals ''rrr'' = Some professor_refresh
   \<and> optionalAuth sample_externals default_config 5000 (bearer_request ''rrr'') =
       Next (bearer_request ''rrr'')
   \<and> well_signed sample_externals (secret (jwt default_config)) ''aaa'' professor_access
   \<and> expired 900000 professor_access
   \<and> optionalAuth sample_externals default_config 900000 (bearer_request ''aaa'') =
       Next (bearer_request ''aaa'')
   \<and> optionalAuth sample_externals default_config 5000 client = Next client"
proof -
  let ?key = "secret (jwt default_config)"
  have hdr: "req_authorization (bearer_request t) = Some (''Bearer '' @ t)" for t
    by (simp add: bearer_request_def)
  have sw: "startsWith (''Bearer '' @ t) ''Bearer ''" for t
    by (simp add: startsWith_def)
  have tf: "''fff'' = takeWhile (\<lambda>x. x \<noteq> CHR '' '') (drop 7 (''Bearer '' @ ''fff''))" by simp
  have tr: "''rrr'' = takeWhile (\<lambda>x. x \<noteq> CHR '' '') (drop 7 (''Bearer '' @ ''rrr''))" by simp
  have ta: "''aaa'' = takeWhile (\<lambda>x. x \<noteq> CHR '' '') (drop 7 (''Bearer '' @ ''aaa''))" by simp
  have wf: "well_signed sample_externals ?key ''fff'' foreign_token"
    by (simp add: well_signed_def sample_externals_def foreign_token_def)
  have ef: "\<not> expired 5000 foreign_token"
    by (simp add: expired_def foreign_token_def)
  have "if": "\<not> issued_for default_config foreign_token"
    by (simp add: issued_for_def foreign_token_def)
  have dr: "jwt_decode sample_externals ''rrr'' = Some professor_refresh"
    by (simp add: sample_externals_def)
  have wr: "\<forall>j'. \<not> well_signed sample_externals ?key ''rrr'' j'"
    by (simp add: well_signed_def sample_externals_def professor_refresh_def default_config_def)
  have wa: "well_signed sample_externals ?key ''aaa'' professor_access"
    by (simp add: well_signed_def sample_externals_def professor_access_def)
  have ea: "expired 900000 professor_access"
    by (simp add: expired_def professor_access_def)
  have none: "req_authorization client = None"
    by (simp add: client_def)
  have c1: "optionalAuth sample_externals default_config 5000 (bearer_request ''fff'') =
       Next ((bearer_request ''fff'')
              \<lparr> req_user := Some (jwt_claims foreign_token), req_token := Some ''fff'' \<rparr>)
     \<and> authenticate sample_externals default_config 5000 (bearer_request ''fff'') =
       Reply (failure 401 ''Invalid token'' ''INVALID_TOKEN'')"
    using optionalAuth_weaker_verification [where req = "bearer_request ''fff''" and now = 5000
        and h = "''Bearer '' @ ''fff''" and tok = "''fff''" and j = foreign_token
        and ext = sample_externals and cfg = default_config]
      hdr sw tf wf ef "if" by blast
  have c2: "optionalAuth sample_externals default_config 5000 (bearer_request ''rrr'') =
       Next (bearer_request ''rrr'')"
    using optionalAuth_weaker_verification [where req = "bearer_request ''rrr''" and now = 5000
        and h = "''Bearer '' @ ''rrr''" and tok = "''rrr''"
        and ext = sample_externals and cfg = default_config]
      hdr sw tr wr by blast
  have c3: "optionalAuth sample_externals default_config 900000 (bearer_request ''aaa'') =
       Next (bearer_request ''aaa'')"
    using optionalAuth_weaker_verification [where req = "bearer_request ''aaa''" and now = 900000
        and h = "''Bearer '' @ ''aaa''" and tok = "''aaa''" and j = professor_access
        and ext = sample_externals and cfg = default_config]
      hdr sw ta wa ea by blast
  have c4: "optionalAuth sample_externals default_config 5000 client = Next client"
    using optionalAuth_weaker_verification [where req = client and now = 5000
        and ext = sample_externals and cfg = default_config] none
    by blast
  from wf ef "if" c1 dr c2 wa ea c3 c4 show ?thesis by blast
qed

section \<open>Properties of the authentication routes\<close>

lemma verifyRefreshToken_nonempty:
  assumes "verifyRefreshToken ext cfg now tok = Some decoded"
  shows "tok \<noteq> []"
  using assms by (auto simp: verifyRefreshToken_def jwt_verify_def)

lemma refresh_store_unchanged: "fst (refresh ext cfg now db refreshToken) = db"
  by (simp add: refresh_def split: option.splits)

lemma refresh_not_found:
  assumes "verifyRefreshToken ext cfg now tok = Some decoded"
    and "\<forall>r \<in> set (refresh_tokens db).
           \<not> (rt_user_id r = c_id decoded \<and> rt_token r = tok \<and> now < rt_expires_at r)"
  shows "refresh ext cfg now db (Some tok) =
     (db, failure 401 ''Refresh token not found or expired'' ''TOKEN_NOT_FOUND'')"
proof -
  have "find (\<lambda>r. rt_user_id r = c_id decoded \<and> rt_token r = tok \<and> rt_expires_at r > now)
          (refresh_tokens db) = None"
    using assms(2) by (auto simp: find_None_iff)
  then show ?thesis
    using assms(1) verifyRefreshToken_nonempty [OF assms(1)]
    by (simp add: refresh_def)
qed

lemma logout_deletes:
  assumes "req_user req = Some u" and "refreshToken = Some tok \<or> refreshToken = None"
  shows "\<forall>r \<in> set (refresh_tokens (fst (logout db req refreshToken))).
           \<not> (rt_user_id r = c_id u \<and> rt_token r = tok)"
  using assms by (cases "tok = []") (auto simp: logout_def Let_def)

subsection \<open>Refresh after logout\<close>

text \<open>
  Claim C3. Let \<open>verifyRefreshToken\<close> accept a token. If the store has no unexpired
  row for the token and the user id of its claims, the refresh handler answers 401
  \<open>TOKEN_NOT_FOUND\<close>. That is so after a logout of the user the token belongs to,
  whether the logout names the token or deletes all tokens of the user. The refresh
  handler never changes the store, and a response with status 200 has exactly the fields
  \<open>success\<close> and \<open>accessToken\<close>, the latter a token newly signed for the user at the
  clock of the request: no refresh token is returned.
\<close>

theorem refresh_revocation:
  assumes "verifyRefreshToken ext cfg now tok = Some decoded"
  shows "((\<forall>r \<in> set (refresh_tokens db).
             \<not> (rt_user_id r = c_id decoded \<and> rt_token r = tok \<and> now < rt_expires_at r)) \<longrightarrow>
          refresh ext cfg now db (Some tok) =
            (db, failure 401 ''Refresh token not found or expired'' ''TOKEN_NOT_FOUND''))
       \<and> (req_user req = Some u \<and> c_id u = c_id decoded
            \<and> (refreshToken = Some tok \<or> refreshToken = None) \<longrightarrow>
          refresh ext cfg now (fst (logout db req refreshToken)) (Some tok) =
            (fst (logout db req refreshToken),
             failure 401 ''Refresh token not found or expired'' ''TOKEN_NOT_FOUND''))
       \<and> fst (refresh ext cfg now db (Some tok)) = db
       \<and> (status (snd (refresh ext cfg now db (Some tok))) = 200 \<longrightarrow>
            (\<exists>user. find (\<lambda>u. u_id u = c_id decoded) (users db) = Some user
               \<and> body (snd (refresh ext cfg now db (Some tok))) =
                   [(''success'', JBool True),
                    (''accessToken'', JStr (generateAccessToken ext cfg now user))])
            \<and> field ''refreshToken'' (snd (refresh ext cfg now db (Some tok))) = None)"
proof -
  have tok: "tok \<noteq> []"
    using assms by (rule verifyRefreshToken_nonempty)
  have after_logout: "refresh ext cfg now (fst (logout db req refreshToken)) (Some tok) =
      (fst (logout db req refreshToken),
       failure 401 ''Refresh token not found or expired'' ''TOKEN_NOT_FOUND'')"
    if "req_user req = Some u" "c_id u = c_id decoded"
      "refreshToken = Some tok \<or> refreshToken = None"
  proof (rule refresh_not_found [OF assms])
    show "\<forall>r \<in> set (refresh_tokens (fst (logout db req refreshToken))).
        \<not> (rt_user_id r = c_id decoded \<and> rt_token r = tok \<and> now < rt_expires_at r)"
      using logout_deletes [OF that(1,3), of db] that(2) by auto
  qed
  have success: "(\<exists>user. find (\<lambda>u. u_id u = c_id decoded) (users db) = Some user
               \<and> body (snd (refresh ext cfg now db (Some tok))) =
                   [(''success'', JBool True),
                    (''accessToken'', JStr (generateAccessToken ext cfg now user))])
            \<and> field ''refreshToken'' (snd (refresh ext cfg now db (Some tok))) = None"
    if "status (snd (refresh ext cfg now db (Some tok))) = 200"
    using that assms tok
    by (auto simp: refresh_def failure_def field_def split: option.splits)
  show ?thesis
    using refresh_not_found [OF assms, of db] after_logout success refresh_store_unchanged
    by blast
qed

theorem refresh_revocation_witness:
  "verifyRefreshToken sample_externals default_config 5000 ''rrr'' =
     Some (jwt_claims professor_refresh)
   \<and> refresh sample_externals default_config 5000 sample_db (Some ''rrr'') =
       (sample_db, \<lparr> status = 200, headers = [],
                     body = [(''success'', JBool True), (''accessToken'', JStr ''aaa'')] \<rparr>)
   \<and> refresh_tokens
       (fst (logout sample_db (client \<lparr> req_user := Some (jwt_claims professor_access) \<rparr>)
          (Some ''rrr''))) = []
   \<and> refresh sample_externals default_config 5000
       (fst (logout sample_db (client \<lparr> req_user := Some (jwt_claims professor_access) \<rparr>)
          (Some ''rrr''))) (Some ''rrr'') =
       (fst (logout sample_db (client \<lparr> req_user := Some (jwt_claims professor_access) \<rparr>)
          (Some ''rrr'')),
        failure 401 ''Refresh token not found or expired'' ''TOKEN_NOT_FOUND'')"
proof -
  let ?req = "client \<lparr> req_user := Some (jwt_claims professor_access) \<rparr>"
  have v: "verifyRefreshToken sample_externals default_config 5000 ''rrr'' =
      Some (jwt_claims professor_refresh)"
    by (simp add: verifyRefreshToken_def jwt_verify_def sample_externals_def
        professor_refresh_def default_config_def)
  have u: "req_user ?req = Some (jwt_claims professor_access)" by simp
  have ids: "c_id (jwt_claims professor_access) = c_id (jwt_claims professor_refresh)"
    by (simp add: professor_access_def professor_refresh_def)
  have ok: "refresh sample_externals default_config 5000 sample_db (Some ''rrr'') =
       (sample_db, \<lparr> status = 200, headers = [],
                     body = [(''success'', JBool True), (''accessToken'', JStr ''aaa'')] \<rparr>)"
    by (simp add: refresh_def verifyRefreshToken_def jwt_verify_def professor_refresh_def
        sample_db_def professor_def generateAccessToken_def jwt_sign_def sample_externals_def
        default_config_def)
  have del: "refresh_tokens (fst (logout sample_db ?req (Some ''rrr''))) = []"
    by (simp add: logout_def sample_db_def professor_access_def Let_def)
  have gone: "refresh sample_externals default_config 5000
       (fst (logout sample_db ?req (Some ''rrr''))) (Some ''rrr'') =
       (fst (logout sample_db ?req (Some ''rrr'')),
        failure 401 ''Refresh token not found or expired'' ''TOKEN_NOT_FOUND'')"
    using refresh_revocation [OF v, where req = ?req and u = "jwt_claims professor_access"
        and refreshToken = "Some ''rrr''" and db = sample_db] u ids
    by blast
  from v ok del gone show ?thesis by blast
qed

subsection \<open>Five wrong passwords\<close>

text \<open>
  Claim C1 at its scenario, on the handler of the login route: a registered professor,
  the default threshold of 5, no record for the email, and five logins with a wrong
  password. The first four responses are 401 \<open>INVALID_CREDENTIALS\<close> with 4, 3, 2 and 1
  attempts remaining. The fifth call of \<open>trackLoginAttempt\<close> sets the lock, but the
  handler reads only \<open>attemptsRemaining\<close> of its result: the fifth response is again
  401 \<open>INVALID_CREDENTIALS\<close>, without \<open>attemptsRemaining\<close> and without \<open>retryAfter\<close>,
  and not 423 \<open>ACCOUNT_LOCKED\<close>. A sixth login before the lock ends is answered 423
  \<open>ACCOUNT_LOCKED\<close> with \<open>retryAfter = 899\<close> and leaves the record as it was.
\<close>

theorem login_fifth_failure_response:
  "snd (logins sample_externals default_config (Map.empty, sample_db) ''prof@x.edu''
     [(''wrong'', 1000, 1000, 1000), (''wrong'', 2000, 2000, 2000), (''wrong'', 3000, 3000, 3000),
      (''wrong'', 4000, 4000, 4000), (''wrong'', 5000, 5000, 5000),
      (''wrong'', 6000, 6000, 6000)]) =
     [invalid_credentials (Some 4), invalid_credentials (Some 3), invalid_credentials (Some 2),
      invalid_credentials (Some 1), invalid_credentials None,
      account_locked 899 (Try_again_in 15)]
   \<and> status (invalid_credentials None) = 401
   \<and> field ''code'' (invalid_credentials None) = Some (JStr ''INVALID_CREDENTIALS'')
   \<and> field ''retryAfter'' (invalid_credentials None) = None
   \<and> field ''attemptsRemaining'' (invalid_credentials None) = None
   \<and> fst (fst (logins sample_externals default_config (Map.empty, sample_db) ''prof@x.edu''
     [(''wrong'', 1000, 1000, 1000), (''wrong'', 2000, 2000, 2000), (''wrong'', 3000, 3000, 3000),
      (''wrong'', 4000, 4000, 4000), (''wrong'', 5000, 5000, 5000)])) ''prof@x.edu'' =
     Some \<lparr> attempts = 0, lockUntil = Some 905000 \<rparr>
   \<and> fst (fst (logins sample_externals default_config (Map.empty, sample_db) ''prof@x.edu''
     [(''wrong'', 1000, 1000, 1000), (''wrong'', 2000, 2000, 2000), (''wrong'', 3000, 3000, 3000),
      (''wrong'', 4000, 4000, 4000), (''wrong'', 5000, 5000, 5000),
      (''wrong'', 6000, 6000, 6000)])) ''prof@x.edu'' =
     Some \<lparr> attempts = 0, lockUntil = Some 905000 \<rparr>"
  by (simp add: login_def isAccountLocked_def trackLoginAttempt_def attemptsRemaining_def
      sample_externals_def sample_db_def professor_def default_config_def Let_def
      lock_active_def locked_result_def ceil_div_def invalid_credentials_def field_def)

end
